theory Spec2Isabelle
  imports Complex_Main
begin

section \<open>The head-pose sample driver (headposeimg.c)\<close>

text \<open>
  The program is one C function, \<open>main\<close>, that sequences calls to the VAAL inference
  library. The library, \<open>getopt_long\<close>, \<open>atoi\<close> and \<open>atof\<close> are not part of the
  program: they are the environment. The model is a shallow embedding of \<open>main\<close> with

  \<^item> the local variables of \<open>main\<close> as a record (\<open>locals\<close>);
  \<^item> every library call, every \<open>calloc\<close>/\<open>free\<close> and every line printed recorded, in
    order and with the value the call returned, in a trace of events (\<open>trace\<close>);
  \<^item> the environment as a record of functions (\<open>library\<close>): what a call returns may
    depend on its arguments and on everything that happened before (the trace so far),
    which covers any deterministic stateful library;
  \<^item> every \<open>return\<close> of \<open>main\<close> as the value \<open>Return code\<close>, and a read of the boxes
    array outside its allocated elements as the value \<open>Fault\<close>.

  C \<open>int\<close> and \<open>int32_t\<close> values are modelled as \<open>int\<close>: the program does no arithmetic
  on them (only comparisons with constants), so wrap-around never arises. A value of C
  type \<open>float\<close> or \<open>double\<close> is a \<open>c_floating\<close>: a real number, an infinity or NaN,
  compared as IEEE 754 compares (\<open>fp_less\<close>). The operations of the C implementation
  that round or may be undefined (the conversion of a \<open>double\<close> to \<open>float\<close>, the product
  of two floats, the conversion of an \<open>int32_t\<close> to \<open>float\<close> and the cast of a \<open>float\<close>
  to \<open>int32_t\<close>) are parameters of the model, as \<open>atoi\<close> and \<open>atof\<close> are. The clock
  readings (\<open>vaal_clock_now\<close>) and the timings printed from them are left out.
  \<open>calloc\<close> is taken to succeed, as the source takes it (it never tests the pointers).
\<close>

subsection \<open>Data\<close>

text \<open>The values of the C types \<open>float\<close> and \<open>double\<close>.\<close>

datatype c_floating = Finite real | PlusInf | MinusInf | NaN

text \<open>The comparison \<open><\<close> of C on floating values: false whenever an operand is NaN.\<close>

fun fp_less :: "c_floating \<Rightarrow> c_floating \<Rightarrow> bool" where
  "fp_less NaN y = False"
| "fp_less x NaN = False"
| "fp_less (Finite a) (Finite b) = (a < b)"
| "fp_less x MinusInf = False"
| "fp_less MinusInf y = True"
| "fp_less PlusInf y = False"
| "fp_less x PlusInf = True"

record VAALBox =
  xmin :: c_floating
  ymin :: c_floating
  xmax :: c_floating
  ymax :: c_floating
  score :: c_floating

record VAALEuler =
  yaw :: c_floating
  pitch :: c_floating
  roll :: c_floating

text \<open>The two sessions of \<open>main\<close> (\<open>VAALContext *pose_ctx\<close>, \<open>*faces_ctx\<close>) and its
  three heap buffers (\<open>boxes\<close>, \<open>orientations\<close>, \<open>roi\<close>).\<close>

datatype VAALContext = pose_ctx | faces_ctx

datatype buffer = boxes_buf | orientations_buf | roi_buf

text \<open>Lines written to standard output, by the \<open>printf\<close> call that writes them.\<close>

datatype out_line =
    USAGE
  | Version_banner
  | Found_face_model
  | Unable_to_locate_face_model
  | Box_header
  | Width_height int int
  | Box_line nat VAALBox VAALEuler
  | Pose_line VAALEuler

text \<open>Lines written to standard error, by the \<open>fprintf\<close> call that writes them.\<close>

datatype err_line =
    Unsupported_norm string
  | Invalid_parameter char
  | Missing_model
  | Failed_to_load_model int
  | Failed_to_load string int
  | Failed_to_run int
  | Decode_failed

text \<open>An event is one observable action of \<open>main\<close>; a call carries its arguments and,
  last, what it returned.\<close>

datatype event =
    Printf out_line
  | Fprintf_stderr err_line
  | Calloc buffer nat
  | Context_create string
  | Load_model_file VAALContext string int
  | Parameter_seti VAALContext string int
  | Parameter_setf VAALContext string c_floating
  | Model_probe string bool
  | Image_file_resolution string int int
  | Load_image_file VAALContext string "int list option" int
  | Run_model VAALContext int
  | Boxes VAALContext nat int "VAALBox list option"
  | Euler VAALContext int "VAALEuler option"
  | Context_release VAALContext
  | Free buffer

text \<open>
  The environment. \<open>vaal_model_probe\<close> answers whether a face-detection session was
  returned (a non-NULL pointer). \<open>vaal_boxes\<close> returns its error code and, when it wrote
  its outputs, the boxes it wrote (their number is what it stores in \<open>num_boxes\<close>);
  \<open>vaal_euler\<close> likewise for the orientation. The four \<open>VAAL_IMAGE_PROC\<close> constants come
  from \<open>vaal.h\<close>, which is not part of the sources: they are parameters.
  \<open>atof\<close> returns a \<open>double\<close>. \<open>float_of_double\<close> is the conversion of a \<open>double\<close> to
  \<open>float\<close> that an assignment to a \<open>float\<close> variable makes (it rounds to the nearest
  float), \<open>float_of_int32\<close> the cast \<open>(float)\<close> of an \<open>int32_t\<close>, \<open>float_mul\<close> the
  product of two floats (rounded to a float) and \<open>int32_of_float\<close> the cast \<open>(int32_t)\<close>
  of a \<open>float\<close> (truncation toward zero; undefined in C outside the range of
  \<open>int32_t\<close>).
\<close>

record library =
  atoi :: "string \<Rightarrow> int"
  atof :: "string \<Rightarrow> c_floating"
  float_of_double :: "c_floating \<Rightarrow> c_floating"
  float_of_int32 :: "int \<Rightarrow> c_floating"
  float_mul :: "c_floating \<Rightarrow> c_floating \<Rightarrow> c_floating"
  int32_of_float :: "c_floating \<Rightarrow> int"
  VAAL_IMAGE_PROC_SIGNED_NORM :: int
  VAAL_IMAGE_PROC_UNSIGNED_NORM :: int
  VAAL_IMAGE_PROC_WHITENING :: int
  VAAL_IMAGE_PROC_IMAGENET :: int
  vaal_load_model_file :: "event list \<Rightarrow> VAALContext \<Rightarrow> string \<Rightarrow> int"
  vaal_model_probe :: "event list \<Rightarrow> string \<Rightarrow> bool"
  vaal_image_file_resolution :: "event list \<Rightarrow> string \<Rightarrow> int \<times> int"
  vaal_load_image_file :: "event list \<Rightarrow> VAALContext \<Rightarrow> string \<Rightarrow> int list option \<Rightarrow> int"
  vaal_run_model :: "event list \<Rightarrow> VAALContext \<Rightarrow> int"
  vaal_boxes :: "event list \<Rightarrow> VAALContext \<Rightarrow> nat \<Rightarrow> int \<times> VAALBox list option"
  vaal_euler :: "event list \<Rightarrow> VAALContext \<Rightarrow> int \<times> VAALEuler option"

text \<open>The local variables of \<open>main\<close> (lines 60-68 and 144-148), and the trace.\<close>

record locals =
  max_detection :: int
  score_thr :: c_floating
  iou_thr :: c_floating
  engine :: string
  model :: "string option"
  norm :: int
  face_detect :: bool
  boxes :: "VAALBox list"
  num_boxes :: nat
  orientations :: VAALEuler
  trace :: "event list"

datatype flow = Continue locals | Return int locals | Fault locals

fun locals_of :: "flow \<Rightarrow> locals" where
  "locals_of (Continue s) = s"
| "locals_of (Return c s) = s"
| "locals_of (Fault s) = s"

definition events :: "flow \<Rightarrow> event list" where
  "events r = trace (locals_of r)"

fun exit_status :: "flow \<Rightarrow> int option" where
  "exit_status (Return c s) = Some c"
| "exit_status (Continue s) = None"
| "exit_status (Fault s) = None"

definition EXIT_SUCCESS :: int where
  "EXIT_SUCCESS = 0"

definition EXIT_FAILURE :: int where
  "EXIT_FAILURE = 1"

definition emit :: "event \<Rightarrow> locals \<Rightarrow> locals" where
  "emit e s = s\<lparr>trace := trace s @ [e]\<rparr>"

subsection \<open>The macros\<close>

text \<open>Modelled from the spec: the macro \<open>MAX\<close> is used at line 96 and defined in a header
  that is not part of the sources. The spec calls its effect on \<open>--max_detection\<close> the
  "minimum enforced floor": the larger of its two arguments.\<close>

definition MAX_macro :: "int \<Rightarrow> int \<Rightarrow> int" where
  "MAX_macro a b = (if a > b then a else b)"

text \<open>Modelled from the spec: the macro \<open>CLAMP\<close> is used at lines 99 and 102 and defined
  in a header that is not part of the sources. The spec says the thresholds are
  "clamped" into the interval given by the second and third argument. The comparisons
  are those of C, so NaN, which is neither below the lower bound nor above the upper
  one, is left as it is.\<close>

definition CLAMP_macro :: "c_floating \<Rightarrow> c_floating \<Rightarrow> c_floating \<Rightarrow> c_floating" where
  "CLAMP_macro x lo hi = (if fp_less x lo then lo else if fp_less hi x then hi else x)"

subsection \<open>Command-line options (lines 60-134)\<close>

text \<open>The initial values of the locals (lines 61-68, 144-145). The buffers do not exist
  before line 146.\<close>

definition initial_locals :: locals where
  "initial_locals =
     \<lparr>max_detection = 25, score_thr = Finite (1/2), iou_thr = Finite (1/2),
      engine = ''npu'', model = None, norm = 0, face_detect = True,
      boxes = [], num_boxes = 0,
      orientations = \<lparr>yaw = Finite 0, pitch = Finite 0, roll = Finite 0\<rparr>,
      trace = []\<rparr>"

text \<open>One iteration of the option loop: the \<open>switch\<close> of lines 87-133 on what
  \<open>getopt_long\<close> returned (the option character and \<open>optarg\<close>). At lines 99 and 102
  the macro is applied to the \<open>double\<close> that \<open>atof\<close> returns and to the bounds
  \<open>0.0f\<close> and \<open>1.0f\<close>, and its result is assigned to the \<open>float\<close> variables
  \<open>score_thr\<close> and \<open>iou_thr\<close>, which converts it to \<open>float\<close>.\<close>

definition handle_option :: "library \<Rightarrow> locals \<Rightarrow> char \<times> string \<Rightarrow> flow" where
  "handle_option L s oa =
     (let opt = fst oa; optarg = snd oa in
      if opt = CHR ''h'' then Return EXIT_SUCCESS (emit (Printf USAGE) s)
      else if opt = CHR ''v'' then Return EXIT_SUCCESS (emit (Printf Version_banner) s)
      else if opt = CHR ''m'' then
        Continue (s\<lparr>max_detection := MAX_macro (atoi L optarg) 1\<rparr>)
      else if opt = CHR ''t'' then
        Continue (s\<lparr>score_thr :=
          float_of_double L (CLAMP_macro (atof L optarg) (Finite 0) (Finite 1))\<rparr>)
      else if opt = CHR ''u'' then
        Continue (s\<lparr>iou_thr :=
          float_of_double L (CLAMP_macro (atof L optarg) (Finite 0) (Finite 1))\<rparr>)
      else if opt = CHR ''n'' then
        (if optarg = ''raw'' then Continue (s\<lparr>norm := 0\<rparr>)
         else if optarg = ''signed'' then
           Continue (s\<lparr>norm := VAAL_IMAGE_PROC_SIGNED_NORM L\<rparr>)
         else if optarg = ''unsigned'' then
           Continue (s\<lparr>norm := VAAL_IMAGE_PROC_UNSIGNED_NORM L\<rparr>)
         else if optarg = ''whitening'' then
           Continue (s\<lparr>norm := VAAL_IMAGE_PROC_WHITENING L\<rparr>)
         else if optarg = ''imagenet'' then
           Continue (s\<lparr>norm := VAAL_IMAGE_PROC_IMAGENET L\<rparr>)
         else Return EXIT_FAILURE (emit (Fprintf_stderr (Unsupported_norm optarg)) s))
      else if opt = CHR ''e'' then Continue (s\<lparr>engine := optarg\<rparr>)
      else if opt = CHR ''d'' then Continue (s\<lparr>face_detect := False\<rparr>)
      else Return EXIT_FAILURE (emit (Fprintf_stderr (Invalid_parameter opt)) s))"

text \<open>The loop of lines 82-134 over the options \<open>getopt_long\<close> finds, in order.\<close>

fun getopt_loop :: "library \<Rightarrow> locals \<Rightarrow> (char \<times> string) list \<Rightarrow> flow" where
  "getopt_loop L s [] = Continue s"
| "getopt_loop L s (oa # rest) =
     (case handle_option L s oa of
        Continue s' \<Rightarrow> getopt_loop L s' rest
      | Return c s' \<Rightarrow> Return c s'
      | Fault s' \<Rightarrow> Fault s')"

subsection \<open>Two-stage processing of one image (lines 182-238)\<close>

text \<open>One coordinate of the region of interest (lines 200-203): the product, in
  \<open>float\<close>, of a coordinate of the box and the width or height cast to \<open>float\<close>, cast
  to \<open>int32_t\<close>.\<close>

definition roi_coordinate :: "library \<Rightarrow> c_floating \<Rightarrow> int \<Rightarrow> int" where
  "roi_coordinate L x n = int32_of_float L (float_mul L x (float_of_int32 L n))"

text \<open>The body of the loop over the boxes (lines 198-237), for index \<open>j\<close>. The read of
  \<open>boxes[j]\<close> at line 199 is inside the array when \<open>j\<close> is below the number of elements
  allocated at line 146; otherwise the outcome is \<open>Fault\<close>.\<close>

definition box_body :: "library \<Rightarrow> string \<Rightarrow> int \<Rightarrow> int \<Rightarrow> nat \<Rightarrow> locals \<Rightarrow> flow" where
  "box_body L img w h j s =
     (if length (boxes s) \<le> j then Fault s
      else
        let box = boxes s ! j;
            roi = [roi_coordinate L (xmin box) w,
                   roi_coordinate L (ymin box) h,
                   roi_coordinate L (xmax box) w,
                   roi_coordinate L (ymax box) h];
            err = vaal_load_image_file L (trace s) pose_ctx img (Some roi);
            s1 = emit (Load_image_file pose_ctx img (Some roi) err) s
        in if err \<noteq> 0 then
             Return EXIT_FAILURE (emit (Fprintf_stderr (Failed_to_load img err)) s1)
           else
             let err2 = vaal_run_model L (trace s1) pose_ctx;
                 s2 = emit (Run_model pose_ctx err2) s1
             in if err2 \<noteq> 0 then
                  Return EXIT_FAILURE (emit (Fprintf_stderr (Failed_to_run err2)) s2)
                else
                  let res = vaal_euler L (trace s2) pose_ctx;
                      s3 = emit (Euler pose_ctx (fst res) (snd res)) s2
                  in if fst res \<noteq> 0 then
                       Return 1 (emit (Fprintf_stderr Decode_failed) s3)
                     else
                       let s4 = (case snd res of
                                   None \<Rightarrow> s3
                                 | Some e \<Rightarrow> s3\<lparr>orientations := e\<rparr>)
                       in Continue (emit (Printf (Box_line j box (orientations s4))) s4))"

text \<open>The loop \<open>for (j = 0; j < num_boxes; j++)\<close> of line 197, over the indices it
  visits; the body does not change \<open>num_boxes\<close>.\<close>

fun box_loop :: "library \<Rightarrow> string \<Rightarrow> int \<Rightarrow> int \<Rightarrow> nat list \<Rightarrow> locals \<Rightarrow> flow" where
  "box_loop L img w h [] s = Continue s"
| "box_loop L img w h (j # js) s =
     (case box_body L img w h j s of
        Continue s' \<Rightarrow> box_loop L img w h js s'
      | Return c s' \<Rightarrow> Return c s'
      | Fault s' \<Rightarrow> Fault s')"

text \<open>What \<open>vaal_boxes\<close> leaves in \<open>boxes\<close> and \<open>num_boxes\<close> (line 196). When the library
  wrote its outputs, the boxes it wrote replace the first elements of the array and their
  number is stored in \<open>num_boxes\<close>; of boxes written beyond the end of the array the model
  keeps nothing. When it wrote nothing, both keep the values of the previous image.\<close>

definition store_boxes :: "VAALBox list option \<Rightarrow> locals \<Rightarrow> locals" where
  "store_boxes written s =
     (case written of
        None \<Rightarrow> s
      | Some bs \<Rightarrow>
          s\<lparr>boxes := take (length (boxes s)) (bs @ drop (length bs) (boxes s)),
            num_boxes := length bs\<rparr>)"

text \<open>Lines 182-238. The results of \<open>vaal_image_file_resolution\<close> (line 184),
  \<open>vaal_run_model\<close> on the face session (line 195) and \<open>vaal_boxes\<close> (line 196) are
  assigned to \<open>err\<close> and not tested.\<close>

definition two_stage :: "library \<Rightarrow> string \<Rightarrow> locals \<Rightarrow> flow" where
  "two_stage L img s =
     (let s1 = emit (Printf Box_header) s;
          wh = vaal_image_file_resolution L (trace s1) img;
          w = fst wh; h = snd wh;
          s2 = emit (Printf (Width_height w h)) (emit (Image_file_resolution img w h) s1);
          err = vaal_load_image_file L (trace s2) faces_ctx img None;
          s3 = emit (Load_image_file faces_ctx img None err) s2
      in if err \<noteq> 0 then
           Return EXIT_FAILURE (emit (Fprintf_stderr (Failed_to_load img err)) s3)
         else
           let err_run = vaal_run_model L (trace s3) faces_ctx;
               s4 = emit (Run_model faces_ctx err_run) s3;
               cap = nat (max_detection s4);
               res = vaal_boxes L (trace s4) faces_ctx cap;
               s5 = store_boxes (snd res) (emit (Boxes faces_ctx cap (fst res) (snd res)) s4)
           in box_loop L img w h [0..<num_boxes s5] s5)"

subsection \<open>Single-stage processing of one image (lines 240-273)\<close>

definition single_stage :: "library \<Rightarrow> string \<Rightarrow> locals \<Rightarrow> flow" where
  "single_stage L img s =
     (let err = vaal_load_image_file L (trace s) pose_ctx img None;
          s1 = emit (Load_image_file pose_ctx img None err) s
      in if err \<noteq> 0 then
           Return EXIT_FAILURE (emit (Fprintf_stderr (Failed_to_load img err)) s1)
         else
           let err2 = vaal_run_model L (trace s1) pose_ctx;
               s2 = emit (Run_model pose_ctx err2) s1
           in if err2 \<noteq> 0 then
                Return EXIT_FAILURE (emit (Fprintf_stderr (Failed_to_run err2)) s2)
              else
                let res = vaal_euler L (trace s2) pose_ctx;
                    s3 = emit (Euler pose_ctx (fst res) (snd res)) s2
                in if fst res \<noteq> 0 then
                     Return 1 (emit (Fprintf_stderr Decode_failed) s3)
                   else
                     let s4 = (case snd res of
                                 None \<Rightarrow> s3
                               | Some e \<Rightarrow> s3\<lparr>orientations := e\<rparr>)
                     in Continue (emit (Printf (Pose_line (orientations s4))) s4))"

subsection \<open>The loop over the images (lines 176-275)\<close>

definition process_image :: "library \<Rightarrow> string \<Rightarrow> locals \<Rightarrow> flow" where
  "process_image L img s =
     (if face_detect s then two_stage L img s else single_stage L img s)"

fun image_loop :: "library \<Rightarrow> string list \<Rightarrow> locals \<Rightarrow> flow" where
  "image_loop L [] s = Continue s"
| "image_loop L (img # rest) s =
     (case process_image L img s of
        Continue s' \<Rightarrow> image_loop L rest s'
      | Return c s' \<Rightarrow> Return c s'
      | Fault s' \<Rightarrow> Fault s')"

subsection \<open>Start-up (lines 144-173) and shutdown (lines 277-285)\<close>

definition zero_box :: VAALBox where
  "zero_box =
     \<lparr>xmin = Finite 0, ymin = Finite 0, xmax = Finite 0, ymax = Finite 0, score = Finite 0\<rparr>"

text \<open>Lines 144-148: the three buffers, zero-filled by \<open>calloc\<close>. \<open>max_detection\<close> is at
  least 1 here, so its conversion to \<open>size_t\<close> keeps its value.\<close>

definition allocate_buffers :: "locals \<Rightarrow> locals" where
  "allocate_buffers s =
     emit (Calloc roi_buf 4)
       (emit (Calloc orientations_buf 1)
          (emit (Calloc boxes_buf (nat (max_detection s)))
             (s\<lparr>boxes := replicate (nat (max_detection s)) zero_box, num_boxes := 0\<rparr>)))"

text \<open>Lines 158-173: the probe for a face-detection session and its parameters.\<close>

definition probe_faces :: "library \<Rightarrow> locals \<Rightarrow> locals" where
  "probe_faces L s =
     (if face_detect s then
        let found = vaal_model_probe L (trace s) (engine s);
            s1 = emit (Model_probe (engine s) found) s
        in if found then
             emit (Parameter_seti faces_ctx ''normalization'' 0)
               (emit (Parameter_setf faces_ctx ''iou_threshold'' (iou_thr s1))
                  (emit (Parameter_setf faces_ctx ''score_threshold'' (score_thr s1))
                     (emit (Parameter_seti faces_ctx ''max_detection'' (max_detection s1))
                        (emit (Printf Found_face_model) s1))))
           else (emit (Printf Unable_to_locate_face_model) s1)\<lparr>face_detect := False\<rparr>
      else s)"

text \<open>Lines 277-285.\<close>

definition shutdown :: "locals \<Rightarrow> flow" where
  "shutdown s =
     (let s1 = (if face_detect s then emit (Context_release faces_ctx) s else s)
      in Return EXIT_SUCCESS
           (emit (Free roi_buf)
              (emit (Free orientations_buf)
                 (emit (Free boxes_buf)
                    (emit (Context_release pose_ctx) s1)))))"

subsection \<open>The program\<close>

text \<open>Lines 141-156: the buffers, the pose session and its model.\<close>

definition load_model :: "library \<Rightarrow> string \<Rightarrow> locals \<Rightarrow> flow" where
  "load_model L m s =
     (let s1 = emit (Context_create (engine s)) (allocate_buffers (s\<lparr>model := Some m\<rparr>));
          err = vaal_load_model_file L (trace s1) pose_ctx m;
          s2 = emit (Load_model_file pose_ctx m err) s1
      in if err \<noteq> 0 then
           Return EXIT_FAILURE (emit (Fprintf_stderr (Failed_to_load_model err)) s2)
         else Continue (emit (Parameter_seti pose_ctx ''normalization'' (norm s2)) s2))"

text \<open>What follows the image loop: shutdown when the loop ran to its end.\<close>

fun finish :: "flow \<Rightarrow> flow" where
  "finish (Continue s) = shutdown s"
| "finish (Return c s) = Return c s"
| "finish (Fault s) = Fault s"

text \<open>Lines 136-285, after the option loop. \<open>args\<close> are the elements of \<open>argv\<close> from
  \<open>optind\<close> on: the model, then the images.\<close>

definition run :: "library \<Rightarrow> string list \<Rightarrow> locals \<Rightarrow> flow" where
  "run L args s =
     (case args of
        [] \<Rightarrow> Return EXIT_FAILURE (emit (Fprintf_stderr Missing_model) s)
      | m # images \<Rightarrow>
          (case load_model L m s of
             Continue s' \<Rightarrow> finish (image_loop L images (probe_faces L s'))
           | Return c s' \<Rightarrow> Return c s'
           | Fault s' \<Rightarrow> Fault s'))"

text \<open>\<open>main\<close>, on the options \<open>getopt_long\<close> finds in \<open>argv\<close> (each with its \<open>optarg\<close>,
  empty for an option without argument) and the remaining arguments.\<close>

definition main :: "library \<Rightarrow> (char \<times> string) list \<Rightarrow> string list \<Rightarrow> flow" where
  "main L opts args =
     (case getopt_loop L initial_locals opts of
        Continue s \<Rightarrow> run L args s
      | Return c s \<Rightarrow> Return c s
      | Fault s \<Rightarrow> Fault s)"

section \<open>Notions used to state the properties\<close>

subsection \<open>Events of start-up and shutdown\<close>

text \<open>The events that only lines 144-173 and 277-283 produce; the processing of an
  image produces none of them.\<close>

fun setup_event :: "event \<Rightarrow> bool" where
  "setup_event (Calloc b n) = True"
| "setup_event (Context_create e) = True"
| "setup_event (Load_model_file c m err) = True"
| "setup_event (Parameter_seti c n v) = True"
| "setup_event (Parameter_setf c n v) = True"
| "setup_event (Model_probe e found) = True"
| "setup_event (Context_release c) = True"
| "setup_event (Free b) = True"
| "setup_event _ = False"

definition setup_events :: "event list \<Rightarrow> event list" where
  "setup_events tr = filter setup_event tr"

text \<open>What the processing of images leaves unchanged.\<close>

definition frame :: "locals \<Rightarrow> locals \<Rightarrow> bool" where
  "frame s s' =
     (max_detection s' = max_detection s \<and> score_thr s' = score_thr s \<and>
      iou_thr s' = iou_thr s \<and> engine s' = engine s \<and> model s' = model s \<and>
      norm s' = norm s \<and> face_detect s' = face_detect s \<and>
      length (boxes s') = length (boxes s) \<and>
      setup_events (trace s') = setup_events (trace s))"

text \<open>The parameters set on the sessions, in order.\<close>

fun is_parameter :: "event \<Rightarrow> bool" where
  "is_parameter (Parameter_seti c n v) = True"
| "is_parameter (Parameter_setf c n v) = True"
| "is_parameter _ = False"

definition parameter_events :: "event list \<Rightarrow> event list" where
  "parameter_events tr = filter is_parameter tr"

subsection \<open>Resources\<close>

datatype resource = Session VAALContext | Buffer buffer

fun is_session :: "resource \<Rightarrow> bool" where
  "is_session (Session c) = True"
| "is_session (Buffer b) = False"

text \<open>What an event acquires: \<open>calloc\<close> a buffer, \<open>vaal_context_create\<close> the pose
  session, a successful \<open>vaal_model_probe\<close> the face-detection session.\<close>

fun acquisition :: "event \<Rightarrow> resource list" where
  "acquisition (Calloc b n) = [Buffer b]"
| "acquisition (Context_create e) = [Session pose_ctx]"
| "acquisition (Model_probe e found) = (if found then [Session faces_ctx] else [])"
| "acquisition _ = []"

fun release :: "event \<Rightarrow> resource list" where
  "release (Context_release c) = [Session c]"
| "release (Free b) = [Buffer b]"
| "release _ = []"

text \<open>The resources acquired, and those released, in the order in which it happened.\<close>

definition acquired :: "event list \<Rightarrow> resource list" where
  "acquired tr = concat (map acquisition tr)"

definition released :: "event list \<Rightarrow> resource list" where
  "released tr = concat (map release tr)"

subsection \<open>Options\<close>

text \<open>The argument of the last occurrence of option \<open>c\<close> on the command line.\<close>

fun last_optarg :: "char \<Rightarrow> (char \<times> string) list \<Rightarrow> string option" where
  "last_optarg c [] = None"
| "last_optarg c (oa # rest) =
     (case last_optarg c rest of
        Some a \<Rightarrow> Some a
      | None \<Rightarrow> if fst oa = c then Some (snd oa) else None)"

text \<open>The values of \<open>--norm\<close> that the usage text lists.\<close>

definition supported_norms :: "string list" where
  "supported_norms = [''raw'', ''signed'', ''unsigned'', ''whitening'', ''imagenet'']"

text \<open>The normalization that the usage text gives each of these names: none for \<open>raw\<close>,
  and the constant of \<open>vaal.h\<close> for the others.\<close>

definition selected_norm :: "library \<Rightarrow> string \<Rightarrow> int" where
  "selected_norm L a =
     (if a = ''raw'' then 0
      else if a = ''signed'' then VAAL_IMAGE_PROC_SIGNED_NORM L
      else if a = ''unsigned'' then VAAL_IMAGE_PROC_UNSIGNED_NORM L
      else if a = ''whitening'' then VAAL_IMAGE_PROC_WHITENING L
      else VAAL_IMAGE_PROC_IMAGENET L)"

subsection \<open>The single-stage path\<close>

text \<open>The single-stage mode as the specification describes it: every image goes through
  the direct pose path (load without crop, run, decode, print), and the first failure
  ends the run.\<close>

fun single_stage_loop :: "library \<Rightarrow> string list \<Rightarrow> locals \<Rightarrow> flow" where
  "single_stage_loop L [] s = Continue s"
| "single_stage_loop L (img # rest) s =
     (case single_stage L img s of
        Continue s' \<Rightarrow> single_stage_loop L rest s'
      | Return c s' \<Rightarrow> Return c s'
      | Fault s' \<Rightarrow> Fault s')"

text \<open>The state in which the run goes on when the probe finds no face-detection model
  (lines 160 and 170-171).\<close>

definition degraded :: "locals \<Rightarrow> locals" where
  "degraded s =
     (emit (Printf Unable_to_locate_face_model)
        (emit (Model_probe (engine s) False) s))\<lparr>face_detect := False\<rparr>"

subsection \<open>Failed image loads\<close>

fun failed_load :: "event \<Rightarrow> bool" where
  "failed_load (Load_image_file c img roi err) = (err \<noteq> 0)"
| "failed_load _ = False"

text \<open>No image load has failed so far.\<close>

definition clean :: "event list \<Rightarrow> bool" where
  "clean tr = list_all (\<lambda>e. \<not> failed_load e) tr"

text \<open>The trace ends with a failed image load and its error message, the only failed
  load of the run.\<close>

definition ended_by_failed_load :: "event list \<Rightarrow> bool" where
  "ended_by_failed_load tr =
     (\<exists>tr' c img roi err. err \<noteq> 0 \<and> clean tr' \<and>
        tr = tr' @ [Load_image_file c img roi err, Fprintf_stderr (Failed_to_load img err)])"

definition disciplined :: "flow \<Rightarrow> bool" where
  "disciplined r =
     (case r of
        Continue s \<Rightarrow> clean (trace s)
      | Fault s \<Rightarrow> clean (trace s)
      | Return c s \<Rightarrow>
          clean (trace s) \<or> (c = EXIT_FAILURE \<and> ended_by_failed_load (trace s)))"

subsection \<open>The capacity of the boxes array\<close>

text \<open>The contract of \<open>vaal_boxes\<close> that the driver relies on (the specification:
  "retrieve up to N detected boxes"): it never writes more boxes than the capacity it
  is given.\<close>

definition honours_capacity :: "library \<Rightarrow> bool" where
  "honours_capacity L =
     (\<forall>tr c cap. case snd (vaal_boxes L tr c cap) of
                   None \<Rightarrow> True
                 | Some bs \<Rightarrow> length bs \<le> cap)"

fun is_fault :: "flow \<Rightarrow> bool" where
  "is_fault (Fault s) = True"
| "is_fault _ = False"

text \<open>What the invariant of the boxes array asks of an event, for an array of \<open>n\<close>
  elements: a box line printed has its index below \<open>n\<close>, a call of \<open>vaal_boxes\<close> is given
  the capacity \<open>n\<close>, and the array was allocated with \<open>n\<close> elements.\<close>

fun in_bounds :: "nat \<Rightarrow> event \<Rightarrow> bool" where
  "in_bounds n (Printf (Box_line j b eu)) = (j < n)"
| "in_bounds n (Boxes c cap err written) = (cap = n)"
| "in_bounds n (Calloc boxes_buf k) = (k = n)"
| "in_bounds n _ = True"

text \<open>The invariant of the boxes array: it has the elements allocated for it, the
  count of boxes is within it, and every event so far is within its bounds.\<close>

definition boxes_in_bounds :: "locals \<Rightarrow> bool" where
  "boxes_in_bounds s =
     (length (boxes s) = nat (max_detection s) \<and> num_boxes s \<le> length (boxes s) \<and>
      list_all (in_bounds (length (boxes s))) (trace s))"

text \<open>An outcome that is not a fault and keeps the invariant.\<close>

definition safe :: "flow \<Rightarrow> bool" where
  "safe r = (\<not> is_fault r \<and> boxes_in_bounds (locals_of r))"

subsection \<open>A library to run the program on\<close>

text \<open>A library for concrete runs: a face-detection model is found, the detector reports
  two faces (as many as the capacity allows), the model file \<open>bad.rtm\<close> does not load
  and the image \<open>missing.png\<close> does not load. Its \<open>atof\<close> knows four arguments:
  \<open>1.5\<close>, \<open>-0.5\<close> and \<open>0.25\<close>, which are floats, and \<open>0.1\<close>, which it reads as the
  nearest \<open>double\<close>, 3602879701896397 / 2^55. Its conversion to \<open>float\<close> rounds that
  \<open>double\<close> to the nearest float, 13421773 / 2^27, and keeps the other values of the
  concrete runs, which are floats. The boxes and sizes of the concrete runs have exact
  products.\<close>

definition demo_boxes :: "VAALBox list" where
  "demo_boxes =
     [\<lparr>xmin = Finite (1/4), ymin = Finite (1/4), xmax = Finite (1/2),
         ymax = Finite (1/2), score = Finite (7/8)\<rparr>,
      \<lparr>xmin = Finite (1/2), ymin = Finite 0, xmax = Finite 1,
         ymax = Finite (1/2), score = Finite (3/4)\<rparr>]"

definition demo_library :: library where
  "demo_library =
     \<lparr>atoi = (\<lambda>a. if a = ''3'' then 3 else if a = ''1'' then 1 else if a = ''-4'' then -4 else 0),
      atof = (\<lambda>a. if a = ''1.5'' then Finite (3/2) else if a = ''-0.5'' then Finite (-1/2)
                   else if a = ''0.25'' then Finite (1/4)
                   else if a = ''0.1'' then Finite (3602879701896397 / 36028797018963968)
                   else Finite 0),
      float_of_double =
        (\<lambda>v. if v = Finite (3602879701896397 / 36028797018963968)
              then Finite (13421773 / 134217728) else v),
      float_of_int32 = (\<lambda>n. Finite (real_of_int n)),
      float_mul = (\<lambda>x y. case x of
                             Finite a \<Rightarrow> (case y of Finite b \<Rightarrow> Finite (a * b) | _ \<Rightarrow> NaN)
                           | _ \<Rightarrow> NaN),
      int32_of_float = (\<lambda>v. case v of
                               Finite a \<Rightarrow> (if 0 \<le> a then \<lfloor>a\<rfloor> else \<lceil>a\<rceil>)
                             | _ \<Rightarrow> 0),
      VAAL_IMAGE_PROC_SIGNED_NORM = 4,
      VAAL_IMAGE_PROC_UNSIGNED_NORM = 1,
      VAAL_IMAGE_PROC_WHITENING = 2,
      VAAL_IMAGE_PROC_IMAGENET = 8,
      vaal_load_model_file = (\<lambda>tr c m. if m = ''bad.rtm'' then 3 else 0),
      vaal_model_probe = (\<lambda>tr e. True),
      vaal_image_file_resolution = (\<lambda>tr i. (640, 480)),
      vaal_load_image_file = (\<lambda>tr c i roi. if i = ''missing.png'' then 2 else 0),
      vaal_run_model = (\<lambda>tr c. 0),
      vaal_boxes = (\<lambda>tr c cap. (0, Some (take cap demo_boxes))),
      vaal_euler = (\<lambda>tr c. (0, Some \<lparr>yaw = Finite (1/8), pitch = Finite (1/4), roll = Finite (3/8)\<rparr>))\<rparr>"

text \<open>The same library whose face-detection inference fails with error 7.\<close>

definition failing_detector_library :: library where
  "failing_detector_library =
     demo_library\<lparr>vaal_run_model := (\<lambda>tr c. if c = faces_ctx then 7 else 0),
                  vaal_boxes := (\<lambda>tr c cap. (0, Some []))\<rparr>"

text \<open>The same library with no face-detection model to be found.\<close>

definition no_faces_library :: library where
  "no_faces_library = demo_library\<lparr>vaal_model_probe := (\<lambda>tr e. False)\<rparr>"

section \<open>Properties\<close>

subsection \<open>The option loop\<close>

lemma getopt_loop_append:
  "getopt_loop L s (pre @ post) =
     (case getopt_loop L s pre of
        Continue s' \<Rightarrow> getopt_loop L s' post
      | Return c s' \<Rightarrow> Return c s'
      | Fault s' \<Rightarrow> Fault s')"
  by (induction pre arbitrary: s) (simp_all split: flow.splits)

lemma handle_option_Continue:
  "handle_option L s oa = Continue s' \<Longrightarrow>
     trace s' = trace s \<and> boxes s' = boxes s \<and> num_boxes s' = num_boxes s \<and>
     (1 \<le> max_detection s \<longrightarrow> 1 \<le> max_detection s')"
  by (auto simp: handle_option_def Let_def MAX_macro_def split: if_splits)

lemma handle_option_Return:
  "handle_option L s oa = Return c s' \<Longrightarrow>
     \<exists>e. s' = emit e s \<and>
         (e = Printf USAGE \<or> e = Printf Version_banner \<or> (\<exists>x. e = Fprintf_stderr x))"
  by (auto simp: handle_option_def Let_def split: if_splits)

lemma handle_option_no_Fault: "handle_option L s oa \<noteq> Fault s'"
  by (simp add: handle_option_def Let_def)

lemma getopt_loop_Continue:
  "getopt_loop L s opts = Continue s' \<Longrightarrow>
     trace s' = trace s \<and> boxes s' = boxes s \<and> num_boxes s' = num_boxes s \<and>
     (1 \<le> max_detection s \<longrightarrow> 1 \<le> max_detection s')"
proof (induction opts arbitrary: s)
  case Nil
  then show ?case by simp
next
  case (Cons oa opts)
  show ?case
  proof (cases "handle_option L s oa")
    case (Continue s1)
    then show ?thesis
      using Cons.IH [of s1] Cons.prems handle_option_Continue [OF Continue] by simp
  next
    case (Return c1 s1)
    then show ?thesis using Cons.prems by simp
  next
    case (Fault s1)
    then show ?thesis using Cons.prems by simp
  qed
qed

lemma parsed_locals:
  "getopt_loop L initial_locals opts = Continue s \<Longrightarrow>
     trace s = [] \<and> boxes s = [] \<and> num_boxes s = 0 \<and> 1 \<le> max_detection s"
  using getopt_loop_Continue [of L initial_locals opts s]
  by (simp add: initial_locals_def)

lemma getopt_loop_Return:
  "getopt_loop L s opts = Return c s' \<Longrightarrow>
     \<exists>e. trace s' = trace s @ [e] \<and>
         (e = Printf USAGE \<or> e = Printf Version_banner \<or> (\<exists>x. e = Fprintf_stderr x))"
proof (induction opts arbitrary: s)
  case Nil
  then show ?case by simp
next
  case (Cons oa opts)
  show ?case
  proof (cases "handle_option L s oa")
    case (Continue s1)
    then show ?thesis
      using Cons.IH [of s1] Cons.prems handle_option_Continue [OF Continue] by simp
  next
    case (Return c1 s1)
    then show ?thesis
      using Cons.prems handle_option_Return [OF Return] by (auto simp: emit_def)
  next
    case (Fault s1)
    then show ?thesis using Cons.prems by simp
  qed
qed

lemma getopt_loop_no_Fault: "getopt_loop L s opts \<noteq> Fault s'"
  by (induction opts arbitrary: s) (auto split: flow.splits simp: handle_option_no_Fault)

lemma trace_initial_locals: "trace initial_locals = []"
  by (simp add: initial_locals_def)

subsection \<open>What the processing of images leaves unchanged\<close>

lemma frame_refl: "frame s s"
  by (simp add: frame_def)

lemma frame_trans: "frame s s' \<Longrightarrow> frame s' s'' \<Longrightarrow> frame s s''"
  by (simp add: frame_def)

lemma frame_store_boxes: "frame s (store_boxes written s)"
  by (auto simp: store_boxes_def frame_def split: option.splits)

lemma frame_box_body: "frame s (locals_of (box_body L img w h j s))"
  by (simp add: box_body_def Let_def frame_def emit_def setup_events_def split: option.splits)

lemma frame_box_loop: "frame s (locals_of (box_loop L img w h js s))"
proof (induction js arbitrary: s)
  case Nil
  show ?case by (simp add: frame_refl)
next
  case (Cons j js)
  show ?case
  proof (cases "box_body L img w h j s")
    case (Continue s')
    have "frame s s'" using frame_box_body [of s L img w h j] Continue by simp
    then show ?thesis using Cons.IH [of s'] Continue by (auto intro: frame_trans)
  next
    case (Return c s')
    then show ?thesis using frame_box_body [of s L img w h j] by simp
  next
    case (Fault s')
    then show ?thesis using frame_box_body [of s L img w h j] by simp
  qed
qed

lemma frame_two_stage: "frame s (locals_of (two_stage L img s))"
  unfolding two_stage_def Let_def
  apply (simp only: split: if_split)
  apply (intro conjI impI)
   apply (simp add: frame_def emit_def setup_events_def)
  apply (rule frame_trans [OF _ frame_box_loop])
  apply (rule frame_trans [OF _ frame_store_boxes])
  apply (simp add: frame_def emit_def setup_events_def)
  done

lemma frame_single_stage: "frame s (locals_of (single_stage L img s))"
  by (simp add: single_stage_def Let_def frame_def emit_def setup_events_def split: option.splits)

lemma frame_process_image: "frame s (locals_of (process_image L img s))"
  by (simp add: process_image_def frame_two_stage frame_single_stage)

lemma frame_image_loop: "frame s (locals_of (image_loop L images s))"
proof (induction images arbitrary: s)
  case Nil
  show ?case by (simp add: frame_refl)
next
  case (Cons img images)
  show ?case
  proof (cases "process_image L img s")
    case (Continue s')
    have "frame s s'" using frame_process_image [of s L img] Continue by simp
    then show ?thesis using Cons.IH [of s'] Continue by (auto intro: frame_trans)
  next
    case (Return c s')
    then show ?thesis using frame_process_image [of s L img] by simp
  next
    case (Fault s')
    then show ?thesis using frame_process_image [of s L img] by simp
  qed
qed

subsection \<open>Exit codes of the image loop\<close>

lemma box_body_Return: "box_body L img w h j s = Return c s' \<Longrightarrow> c = EXIT_FAILURE"
  by (auto simp: box_body_def Let_def EXIT_FAILURE_def split: if_splits)

lemma box_loop_Return: "box_loop L img w h js s = Return c s' \<Longrightarrow> c = EXIT_FAILURE"
  by (induction js arbitrary: s) (auto split: flow.splits dest: box_body_Return)

lemma two_stage_Return: "two_stage L img s = Return c s' \<Longrightarrow> c = EXIT_FAILURE"
  by (auto simp: two_stage_def Let_def split: if_splits dest: box_loop_Return)

lemma single_stage_Return: "single_stage L img s = Return c s' \<Longrightarrow> c = EXIT_FAILURE"
  by (auto simp: single_stage_def Let_def EXIT_FAILURE_def split: if_splits)

lemma process_image_Return: "process_image L img s = Return c s' \<Longrightarrow> c = EXIT_FAILURE"
  by (auto simp: process_image_def split: if_splits dest: two_stage_Return single_stage_Return)

lemma image_loop_Return: "image_loop L images s = Return c s' \<Longrightarrow> c = EXIT_FAILURE"
  by (induction images arbitrary: s) (auto split: flow.splits dest: process_image_Return)

lemma exit_codes_differ: "EXIT_FAILURE \<noteq> EXIT_SUCCESS"
  by (simp add: EXIT_FAILURE_def EXIT_SUCCESS_def)

subsection \<open>Start-up and shutdown\<close>

lemma load_model_cases:
  "(\<exists>err. err \<noteq> 0 \<and>
      load_model L m s =
        Return EXIT_FAILURE
          (s\<lparr>model := Some m, boxes := replicate (nat (max_detection s)) zero_box,
             num_boxes := 0,
             trace := trace s @
               [Calloc boxes_buf (nat (max_detection s)), Calloc orientations_buf 1,
                Calloc roi_buf 4, Context_create (engine s),
                Load_model_file pose_ctx m err,
                Fprintf_stderr (Failed_to_load_model err)]\<rparr>)) \<or>
   load_model L m s =
     Continue
       (s\<lparr>model := Some m, boxes := replicate (nat (max_detection s)) zero_box,
          num_boxes := 0,
          trace := trace s @
            [Calloc boxes_buf (nat (max_detection s)), Calloc orientations_buf 1,
             Calloc roi_buf 4, Context_create (engine s),
             Load_model_file pose_ctx m 0,
             Parameter_seti pose_ctx ''normalization'' (norm s)]\<rparr>)"
proof (cases "load_model L m s")
  case (Continue s')
  then show ?thesis
    by (auto simp: load_model_def allocate_buffers_def emit_def Let_def split: if_splits)
next
  case (Return c s')
  then have "c = EXIT_FAILURE \<and>
     s' = s\<lparr>model := Some m, boxes := replicate (nat (max_detection s)) zero_box,
             num_boxes := 0,
             trace := trace s @
               [Calloc boxes_buf (nat (max_detection s)), Calloc orientations_buf 1,
                Calloc roi_buf 4, Context_create (engine s),
                Load_model_file pose_ctx m
                  (vaal_load_model_file L
                     (trace s @ [Calloc boxes_buf (nat (max_detection s)),
                        Calloc orientations_buf 1, Calloc roi_buf 4,
                        Context_create (engine s)]) pose_ctx m),
                Fprintf_stderr (Failed_to_load_model
                  (vaal_load_model_file L
                     (trace s @ [Calloc boxes_buf (nat (max_detection s)),
                        Calloc orientations_buf 1, Calloc roi_buf 4,
                        Context_create (engine s)]) pose_ctx m))]\<rparr> \<and>
     vaal_load_model_file L
        (trace s @ [Calloc boxes_buf (nat (max_detection s)),
           Calloc orientations_buf 1, Calloc roi_buf 4,
           Context_create (engine s)]) pose_ctx m \<noteq> 0"
    by (auto simp: load_model_def allocate_buffers_def emit_def Let_def split: if_splits)
  then show ?thesis
    using Return by blast
next
  case (Fault s')
  then show ?thesis
    by (auto simp: load_model_def allocate_buffers_def emit_def Let_def split: if_splits)
qed

lemma probe_faces_trace:
  "trace (probe_faces L s) =
     trace s @
       (if face_detect s then
          (if vaal_model_probe L (trace s) (engine s) then
             [Model_probe (engine s) True, Printf Found_face_model,
              Parameter_seti faces_ctx ''max_detection'' (max_detection s),
              Parameter_setf faces_ctx ''score_threshold'' (score_thr s),
              Parameter_setf faces_ctx ''iou_threshold'' (iou_thr s),
              Parameter_seti faces_ctx ''normalization'' 0]
           else [Model_probe (engine s) False, Printf Unable_to_locate_face_model])
        else [])"
  by (simp add: probe_faces_def emit_def Let_def)

lemma probe_faces_locals:
  "max_detection (probe_faces L s) = max_detection s \<and>
   boxes (probe_faces L s) = boxes s \<and> num_boxes (probe_faces L s) = num_boxes s \<and>
   face_detect (probe_faces L s) = (face_detect s \<and> vaal_model_probe L (trace s) (engine s))"
  by (simp add: probe_faces_def emit_def Let_def)

lemma trace_shutdown:
  "trace (locals_of (shutdown s)) =
     trace s @ (if face_detect s then [Context_release faces_ctx] else []) @
     [Context_release pose_ctx, Free boxes_buf, Free orientations_buf, Free roi_buf]"
  by (simp add: shutdown_def emit_def Let_def)

lemma exit_status_shutdown: "exit_status (shutdown s) = Some EXIT_SUCCESS"
  by (simp add: shutdown_def Let_def)

lemma events_finish:
  "events (finish r) =
     events r @
       (case r of
          Continue s \<Rightarrow>
            (if face_detect s then [Context_release faces_ctx] else []) @
            [Context_release pose_ctx, Free boxes_buf, Free orientations_buf, Free roi_buf]
        | Return c s \<Rightarrow> []
        | Fault s \<Rightarrow> [])"
  by (cases r) (simp_all add: events_def shutdown_def emit_def Let_def)

lemma exit_status_finish:
  "exit_status (finish r) =
     (case r of Continue s \<Rightarrow> Some EXIT_SUCCESS | Return c s \<Rightarrow> Some c | Fault s \<Rightarrow> None)"
  by (cases r) (simp_all add: shutdown_def Let_def)

subsection \<open>The runs of \<open>main\<close>\<close>

text \<open>A run ends in the option loop, or for want of a model argument, or because the
  model does not load, or it reaches the image loop.\<close>

lemma main_cases:
  obtains
    (parse_exit) c s e where
      "getopt_loop L initial_locals opts = Return c s"
      "main L opts args = Return c s" "trace s = [e]"
      "e = Printf USAGE \<or> e = Printf Version_banner \<or> (\<exists>x. e = Fprintf_stderr x)"
  | (no_model) s where
      "getopt_loop L initial_locals opts = Continue s" "args = []"
      "main L opts args = Return EXIT_FAILURE (emit (Fprintf_stderr Missing_model) s)"
  | (load_failed) s m images err where
      "getopt_loop L initial_locals opts = Continue s" "args = m # images" "err \<noteq> 0"
      "exit_status (main L opts args) = Some EXIT_FAILURE"
      "events (main L opts args) =
         [Calloc boxes_buf (nat (max_detection s)), Calloc orientations_buf 1,
          Calloc roi_buf 4, Context_create (engine s),
          Load_model_file pose_ctx m err,
          Fprintf_stderr (Failed_to_load_model err)]"
      "max_detection (locals_of (main L opts args)) = max_detection s"
  | (ran) s m images s2 where
      "getopt_loop L initial_locals opts = Continue s" "args = m # images"
      "load_model L m s = Continue s2"
      "s2 = s\<lparr>model := Some m, boxes := replicate (nat (max_detection s)) zero_box,
          num_boxes := 0,
          trace :=
            [Calloc boxes_buf (nat (max_detection s)), Calloc orientations_buf 1,
             Calloc roi_buf 4, Context_create (engine s),
             Load_model_file pose_ctx m 0,
             Parameter_seti pose_ctx ''normalization'' (norm s)]\<rparr>"
      "main L opts args = finish (image_loop L images (probe_faces L s2))"
proof (cases "getopt_loop L initial_locals opts")
  case (Return c s)
  obtain e where "trace s = [e]"
      "e = Printf USAGE \<or> e = Printf Version_banner \<or> (\<exists>x. e = Fprintf_stderr x)"
    using getopt_loop_Return [OF Return] by (auto simp: trace_initial_locals)
  then show ?thesis
    using Return parse_exit by (simp add: main_def)
next
  case (Fault s)
  then show ?thesis by (simp add: getopt_loop_no_Fault)
next
  case (Continue s)
  have tr: "trace s = []" using parsed_locals [OF Continue] by simp
  show ?thesis
  proof (cases args)
    case Nil
    then show ?thesis using Continue no_model by (simp add: main_def run_def)
  next
    case (Cons m images)
    from load_model_cases [of L m s] show ?thesis
    proof (elim disjE exE conjE)
      fix err :: int
      assume "err \<noteq> 0" and
        "load_model L m s =
          Return EXIT_FAILURE
            (s\<lparr>model := Some m, boxes := replicate (nat (max_detection s)) zero_box,
               num_boxes := 0,
               trace := trace s @
                 [Calloc boxes_buf (nat (max_detection s)), Calloc orientations_buf 1,
                  Calloc roi_buf 4, Context_create (engine s),
                  Load_model_file pose_ctx m err,
                  Fprintf_stderr (Failed_to_load_model err)]\<rparr>)"
      then show ?thesis
        using Continue Cons tr load_failed [of s m images err]
        by (simp add: main_def run_def events_def)
    next
      assume "load_model L m s =
          Continue
            (s\<lparr>model := Some m, boxes := replicate (nat (max_detection s)) zero_box,
               num_boxes := 0,
               trace := trace s @
                 [Calloc boxes_buf (nat (max_detection s)), Calloc orientations_buf 1,
                  Calloc roi_buf 4, Context_create (engine s),
                  Load_model_file pose_ctx m 0,
                  Parameter_seti pose_ctx ''normalization'' (norm s)]\<rparr>)"
      then show ?thesis
        using Continue Cons tr ran [of s m images]
        by (simp add: main_def run_def)
    qed
  qed
qed

text \<open>The start-up and shutdown events of a run that reaches the image loop.\<close>

lemma ran_setup_events:
  assumes "s2 = s\<lparr>model := Some m, boxes := replicate (nat (max_detection s)) zero_box,
          num_boxes := 0,
          trace :=
            [Calloc boxes_buf (nat (max_detection s)), Calloc orientations_buf 1,
             Calloc roi_buf 4, Context_create (engine s),
             Load_model_file pose_ctx m 0,
             Parameter_seti pose_ctx ''normalization'' (norm s)]\<rparr>"
    and "r = finish (image_loop L images (probe_faces L s2))"
  shows "setup_events (events r) =
     [Calloc boxes_buf (nat (max_detection s)), Calloc orientations_buf 1,
      Calloc roi_buf 4, Context_create (engine s),
      Load_model_file pose_ctx m 0,
      Parameter_seti pose_ctx ''normalization'' (norm s)] @
     (if face_detect s then
        (if vaal_model_probe L (trace s2) (engine s) then
           [Model_probe (engine s) True,
            Parameter_seti faces_ctx ''max_detection'' (max_detection s),
            Parameter_setf faces_ctx ''score_threshold'' (score_thr s),
            Parameter_setf faces_ctx ''iou_threshold'' (iou_thr s),
            Parameter_seti faces_ctx ''normalization'' 0]
         else [Model_probe (engine s) False])
      else []) @
     (if exit_status r = Some EXIT_SUCCESS then
        (if face_detect s \<and> vaal_model_probe L (trace s2) (engine s)
         then [Context_release faces_ctx] else []) @
        [Context_release pose_ctx, Free boxes_buf, Free orientations_buf, Free roi_buf]
      else [])"
proof -
  let ?s3 = "probe_faces L s2"
  let ?r = "image_loop L images ?s3"
  have fr: "frame ?s3 (locals_of ?r)" by (rule frame_image_loop)
  have s3: "setup_events (trace ?s3) =
     [Calloc boxes_buf (nat (max_detection s)), Calloc orientations_buf 1,
      Calloc roi_buf 4, Context_create (engine s),
      Load_model_file pose_ctx m 0,
      Parameter_seti pose_ctx ''normalization'' (norm s)] @
     (if face_detect s then
        (if vaal_model_probe L (trace s2) (engine s) then
           [Model_probe (engine s) True,
            Parameter_seti faces_ctx ''max_detection'' (max_detection s),
            Parameter_setf faces_ctx ''score_threshold'' (score_thr s),
            Parameter_setf faces_ctx ''iou_threshold'' (iou_thr s),
            Parameter_seti faces_ctx ''normalization'' 0]
         else [Model_probe (engine s) False])
      else [])"
    by (simp add: probe_faces_trace setup_events_def assms(1))
  have fd: "face_detect (locals_of ?r) =
      (face_detect s \<and> vaal_model_probe L (trace s2) (engine s))"
    using fr probe_faces_locals [of L s2] by (simp add: frame_def assms(1))
  have ev: "setup_events (events ?r) = setup_events (trace ?s3)"
    using fr by (simp add: frame_def events_def)
  show ?thesis
  proof (cases ?r)
    case (Continue s')
    then show ?thesis
      using ev s3 fd
      by (simp add: assms(2) trace_shutdown exit_status_shutdown events_def
          setup_events_def)
  next
    case (Return c s')
    then have "c \<noteq> EXIT_SUCCESS"
      using image_loop_Return [of L images ?s3 c s'] exit_codes_differ by simp
    then show ?thesis
      using ev s3 Return
      by (simp add: assms(2) events_def setup_events_def)
  next
    case (Fault s')
    then show ?thesis
      using ev s3
      by (simp add: assms(2) events_def setup_events_def)
  qed
qed

text \<open>The start-up and shutdown events of any run.\<close>

lemma main_setup_events:
  "setup_events (events (main L opts args)) = [] \<or>
   (\<exists>s m err. getopt_loop L initial_locals opts = Continue s \<and> err \<noteq> 0 \<and>
      exit_status (main L opts args) = Some EXIT_FAILURE \<and>
      setup_events (events (main L opts args)) =
        [Calloc boxes_buf (nat (max_detection s)), Calloc orientations_buf 1,
         Calloc roi_buf 4, Context_create (engine s),
         Load_model_file pose_ctx m err]) \<or>
   (\<exists>s m found. getopt_loop L initial_locals opts = Continue s \<and>
      setup_events (events (main L opts args)) =
        [Calloc boxes_buf (nat (max_detection s)), Calloc orientations_buf 1,
         Calloc roi_buf 4, Context_create (engine s),
         Load_model_file pose_ctx m 0,
         Parameter_seti pose_ctx ''normalization'' (norm s)] @
        (if face_detect s then
           (if found then
              [Model_probe (engine s) True,
               Parameter_seti faces_ctx ''max_detection'' (max_detection s),
               Parameter_setf faces_ctx ''score_threshold'' (score_thr s),
               Parameter_setf faces_ctx ''iou_threshold'' (iou_thr s),
               Parameter_seti faces_ctx ''normalization'' 0]
            else [Model_probe (engine s) False])
         else []) @
        (if exit_status (main L opts args) = Some EXIT_SUCCESS then
           (if face_detect s \<and> found then [Context_release faces_ctx] else []) @
           [Context_release pose_ctx, Free boxes_buf, Free orientations_buf, Free roi_buf]
         else []))"
proof (cases L opts args rule: main_cases)
  case (parse_exit c s e)
  then show ?thesis by (auto simp: events_def setup_events_def)
next
  case (no_model s)
  then have "events (main L opts args) = [Fprintf_stderr Missing_model]"
    using parsed_locals [of L opts s] by (simp add: events_def emit_def)
  then show ?thesis by (simp add: setup_events_def)
next
  case (load_failed s m images err)
  then have "getopt_loop L initial_locals opts = Continue s \<and> err \<noteq> 0 \<and>
      exit_status (main L opts args) = Some EXIT_FAILURE \<and>
      setup_events (events (main L opts args)) =
        [Calloc boxes_buf (nat (max_detection s)), Calloc orientations_buf 1,
         Calloc roi_buf 4, Context_create (engine s),
         Load_model_file pose_ctx m err]"
    by (simp add: setup_events_def)
  then show ?thesis by blast
next
  case (ran s m images s2)
  have "getopt_loop L initial_locals opts = Continue s \<and>
      setup_events (events (main L opts args)) =
        [Calloc boxes_buf (nat (max_detection s)), Calloc orientations_buf 1,
         Calloc roi_buf 4, Context_create (engine s),
         Load_model_file pose_ctx m 0,
         Parameter_seti pose_ctx ''normalization'' (norm s)] @
        (if face_detect s then
           (if vaal_model_probe L (trace s2) (engine s) then
              [Model_probe (engine s) True,
               Parameter_seti faces_ctx ''max_detection'' (max_detection s),
               Parameter_setf faces_ctx ''score_threshold'' (score_thr s),
               Parameter_setf faces_ctx ''iou_threshold'' (iou_thr s),
               Parameter_seti faces_ctx ''normalization'' 0]
            else [Model_probe (engine s) False])
         else []) @
        (if exit_status (main L opts args) = Some EXIT_SUCCESS then
           (if face_detect s \<and> vaal_model_probe L (trace s2) (engine s)
            then [Context_release faces_ctx] else []) @
           [Context_release pose_ctx, Free boxes_buf, Free orientations_buf, Free roi_buf]
         else [])"
    using ran(1) ran_setup_events [OF ran(4) ran(5)] by (rule conjI)
  then show ?thesis by blast
qed


lemma parameter_events_setup: "parameter_events (setup_events tr) = parameter_events tr"
proof -
  have "is_parameter e \<Longrightarrow> setup_event e" for e
    by (cases e) simp_all
  then have "(setup_event e \<and> is_parameter e) = is_parameter e" for e
    by blast
  then show ?thesis
    by (simp add: parameter_events_def setup_events_def)
qed

lemma acquired_setup: "acquired (setup_events tr) = acquired tr"
proof (induction tr)
  case Nil
  show ?case by (simp add: setup_events_def)
next
  case (Cons e tr)
  then show ?case by (cases e) (simp_all add: acquired_def setup_events_def)
qed

lemma released_setup: "released (setup_events tr) = released tr"
proof (induction tr)
  case Nil
  show ?case by (simp add: setup_events_def)
next
  case (Cons e tr)
  then show ?case by (cases e) (simp_all add: released_def setup_events_def)
qed

subsection \<open>The values the option loop leaves\<close>



lemma handle_option_norm:
  "handle_option L s oa = Continue s' \<Longrightarrow>
     (if fst oa = CHR ''n''
      then snd oa \<in> set supported_norms \<and> norm s' = selected_norm L (snd oa)
      else norm s' = norm s)"
  by (auto simp: handle_option_def Let_def supported_norms_def selected_norm_def
      split: if_splits)

lemma getopt_loop_norm:
  "getopt_loop L s opts = Continue s' \<Longrightarrow>
     (case last_optarg (CHR ''n'') opts of
        None \<Rightarrow> norm s' = norm s
      | Some a \<Rightarrow> a \<in> set supported_norms \<and> norm s' = selected_norm L a)"
proof (induction opts arbitrary: s)
  case Nil
  then show ?case by simp
next
  case (Cons oa opts)
  show ?case
  proof (cases "handle_option L s oa")
    case (Continue s1)
    then have "getopt_loop L s1 opts = Continue s'"
      using Cons.prems by simp
    from Cons.IH [OF this] handle_option_norm [OF Continue] show ?thesis
      by (simp split: option.splits if_splits)
  next
    case (Return c s1)
    then show ?thesis using Cons.prems by simp
  next
    case (Fault s1)
    then show ?thesis using Cons.prems by simp
  qed
qed

subsection \<open>Concrete runs\<close>

text \<open>The default run on one image in which two faces are found.\<close>

lemma demo_run:
  "exit_status (main demo_library [] [''model.rtm'', ''a.png'']) = Some EXIT_SUCCESS \<and>
   events (main demo_library [] [''model.rtm'', ''a.png'']) =
     [Calloc boxes_buf 25, Calloc orientations_buf 1, Calloc roi_buf 4,
      Context_create ''npu'', Load_model_file pose_ctx ''model.rtm'' 0,
      Parameter_seti pose_ctx ''normalization'' 0,
      Model_probe ''npu'' True, Printf Found_face_model,
      Parameter_seti faces_ctx ''max_detection'' 25,
      Parameter_setf faces_ctx ''score_threshold'' (Finite (1/2)),
      Parameter_setf faces_ctx ''iou_threshold'' (Finite (1/2)),
      Parameter_seti faces_ctx ''normalization'' 0,
      Printf Box_header, Image_file_resolution ''a.png'' 640 480,
      Printf (Width_height 640 480),
      Load_image_file faces_ctx ''a.png'' None 0, Run_model faces_ctx 0,
      Boxes faces_ctx 25 0 (Some demo_boxes),
      Load_image_file pose_ctx ''a.png'' (Some [160, 120, 320, 240]) 0,
      Run_model pose_ctx 0,
      Euler pose_ctx 0 (Some \<lparr>yaw = Finite (1/8), pitch = Finite (1/4), roll = Finite (3/8)\<rparr>),
      Printf (Box_line 0 \<lparr>xmin = Finite (1/4), ymin = Finite (1/4), xmax = Finite (1/2),
         ymax = Finite (1/2), score = Finite (7/8)\<rparr>
                \<lparr>yaw = Finite (1/8), pitch = Finite (1/4), roll = Finite (3/8)\<rparr>),
      Load_image_file pose_ctx ''a.png'' (Some [320, 0, 640, 240]) 0,
      Run_model pose_ctx 0,
      Euler pose_ctx 0 (Some \<lparr>yaw = Finite (1/8), pitch = Finite (1/4), roll = Finite (3/8)\<rparr>),
      Printf (Box_line 1 \<lparr>xmin = Finite (1/2), ymin = Finite 0, xmax = Finite 1,
         ymax = Finite (1/2), score = Finite (3/4)\<rparr>
                \<lparr>yaw = Finite (1/8), pitch = Finite (1/4), roll = Finite (3/8)\<rparr>),
      Context_release faces_ctx, Context_release pose_ctx,
      Free boxes_buf, Free orientations_buf, Free roi_buf]"
  by (simp add: main_def run_def load_model_def allocate_buffers_def probe_faces_def
      process_image_def two_stage_def store_boxes_def box_body_def shutdown_def
      initial_locals_def demo_library_def demo_boxes_def emit_def events_def
      roi_coordinate_def zero_box_def EXIT_SUCCESS_def EXIT_FAILURE_def Let_def
      upt_rec [of 0] upt_rec [of 1] upt_rec [of 2])

text \<open>A run whose model file does not load.\<close>

lemma bad_model_run:
  "exit_status (main demo_library [] [''bad.rtm'', ''a.png'']) = Some EXIT_FAILURE \<and>
   events (main demo_library [] [''bad.rtm'', ''a.png'']) =
     [Calloc boxes_buf 25, Calloc orientations_buf 1, Calloc roi_buf 4,
      Context_create ''npu'', Load_model_file pose_ctx ''bad.rtm'' 3,
      Fprintf_stderr (Failed_to_load_model 3)]"
  by (simp add: main_def run_def load_model_def allocate_buffers_def
      initial_locals_def demo_library_def emit_def events_def Let_def)

subsection \<open>C1: a failure of the face-detection inference\<close>

text \<open>
  Claim C1 says that a non-zero error from the face-detection inference run makes the
  process exit with failure before box retrieval. The code assigns the result of
  \<open>vaal_run_model(faces_ctx)\<close> to \<open>err\<close> at line 195 and overwrites it at line 196
  without testing it. In the run below the face-detection inference returns error 7;
  \<open>main\<close> goes on to \<open>vaal_boxes\<close>, finds no box, releases its resources and returns
  \<open>EXIT_SUCCESS\<close>, with nothing written to standard error.
\<close>

theorem face_inference_error_ignored:
  "vaal_run_model failing_detector_library
     [Calloc boxes_buf 25, Calloc orientations_buf 1, Calloc roi_buf 4,
      Context_create ''npu'', Load_model_file pose_ctx ''model.rtm'' 0,
      Parameter_seti pose_ctx ''normalization'' 0,
      Model_probe ''npu'' True, Printf Found_face_model,
      Parameter_seti faces_ctx ''max_detection'' 25,
      Parameter_setf faces_ctx ''score_threshold'' (Finite (1/2)),
      Parameter_setf faces_ctx ''iou_threshold'' (Finite (1/2)),
      Parameter_seti faces_ctx ''normalization'' 0,
      Printf Box_header, Image_file_resolution ''a.png'' 640 480,
      Printf (Width_height 640 480),
      Load_image_file faces_ctx ''a.png'' None 0] faces_ctx = 7 \<and>
   exit_status (main failing_detector_library [] [''model.rtm'', ''a.png'']) =
     Some EXIT_SUCCESS \<and>
   events (main failing_detector_library [] [''model.rtm'', ''a.png'']) =
     [Calloc boxes_buf 25, Calloc orientations_buf 1, Calloc roi_buf 4,
      Context_create ''npu'', Load_model_file pose_ctx ''model.rtm'' 0,
      Parameter_seti pose_ctx ''normalization'' 0,
      Model_probe ''npu'' True, Printf Found_face_model,
      Parameter_seti faces_ctx ''max_detection'' 25,
      Parameter_setf faces_ctx ''score_threshold'' (Finite (1/2)),
      Parameter_setf faces_ctx ''iou_threshold'' (Finite (1/2)),
      Parameter_seti faces_ctx ''normalization'' 0,
      Printf Box_header, Image_file_resolution ''a.png'' 640 480,
      Printf (Width_height 640 480),
      Load_image_file faces_ctx ''a.png'' None 0,
      Run_model faces_ctx 7,
      Boxes faces_ctx 25 0 (Some []),
      Context_release faces_ctx, Context_release pose_ctx,
      Free boxes_buf, Free orientations_buf, Free roi_buf]"
  by (simp add: main_def run_def load_model_def allocate_buffers_def probe_faces_def
      process_image_def two_stage_def store_boxes_def shutdown_def
      initial_locals_def failing_detector_library_def demo_library_def emit_def events_def
      zero_box_def EXIT_SUCCESS_def EXIT_FAILURE_def Let_def)

text \<open>The sibling path: the same error from the inference of the pose session ends
  the run with \<open>EXIT_FAILURE\<close> (lines 216-221 and 252-257).\<close>

lemma pose_inference_error_exits:
  "vaal_run_model L (trace s @ [Load_image_file pose_ctx img None 0]) pose_ctx = err \<Longrightarrow>
   vaal_load_image_file L (trace s) pose_ctx img None = 0 \<Longrightarrow> err \<noteq> 0 \<Longrightarrow>
   single_stage L img s =
     Return EXIT_FAILURE
       (s\<lparr>trace := trace s @
           [Load_image_file pose_ctx img None 0, Run_model pose_ctx err,
            Fprintf_stderr (Failed_to_run err)]\<rparr>)"
  by (simp add: single_stage_def emit_def Let_def)

subsection \<open>C2: release of sessions and buffers\<close>

text \<open>
  Claim C2, as the code has it. When \<open>main\<close> returns \<open>EXIT_SUCCESS\<close> (normal
  completion after the image loop, or \<open>-h\<close>/\<open>-v\<close>, where nothing was acquired),
  everything that was acquired has been released, each resource once: first the sessions
  in the reverse order of their acquisition (the face-detection session, if one was
  returned by the probe, then the pose session), then the buffers in the order of their
  acquisition (boxes, orientations, roi).
\<close>

theorem released_on_normal_exit:
  assumes "exit_status (main L opts args) = Some EXIT_SUCCESS"
  shows "released (events (main L opts args)) =
           rev (filter is_session (acquired (events (main L opts args)))) @
           filter (\<lambda>r. \<not> is_session r) (acquired (events (main L opts args)))"
proof -
  have a: "acquired (events (main L opts args)) =
           acquired (setup_events (events (main L opts args)))"
    by (simp add: acquired_setup)
  have r: "released (events (main L opts args)) =
           released (setup_events (events (main L opts args)))"
    by (simp add: released_setup)
  from main_setup_events [of L opts args] show ?thesis
  proof (elim disjE exE conjE)
    assume se: "setup_events (events (main L opts args)) = []"
    show ?thesis unfolding a r se by (simp add: acquired_def released_def)
  next
    fix s :: locals and m err
    assume "exit_status (main L opts args) = Some EXIT_FAILURE"
    then show ?thesis using assms exit_codes_differ by simp
  next
    fix s :: locals and m found
    assume se: "setup_events (events (main L opts args)) =
          [Calloc boxes_buf (nat (max_detection s)), Calloc orientations_buf 1,
           Calloc roi_buf 4, Context_create (engine s),
           Load_model_file pose_ctx m 0,
           Parameter_seti pose_ctx ''normalization'' (norm s)] @
          (if face_detect s then
             (if found then
                [Model_probe (engine s) True,
                 Parameter_seti faces_ctx ''max_detection'' (max_detection s),
                 Parameter_setf faces_ctx ''score_threshold'' (score_thr s),
                 Parameter_setf faces_ctx ''iou_threshold'' (iou_thr s),
                 Parameter_seti faces_ctx ''normalization'' 0]
              else [Model_probe (engine s) False])
           else []) @
          (if exit_status (main L opts args) = Some EXIT_SUCCESS then
             (if face_detect s \<and> found then [Context_release faces_ctx] else []) @
             [Context_release pose_ctx, Free boxes_buf, Free orientations_buf, Free roi_buf]
           else [])"
    show ?thesis unfolding a r se using assms by (simp add: acquired_def released_def)
  qed
qed

theorem released_on_normal_exit_witness:
  "exit_status (main demo_library [] [''model.rtm'', ''a.png'']) = Some EXIT_SUCCESS \<and>
   acquired (events (main demo_library [] [''model.rtm'', ''a.png''])) =
     [Buffer boxes_buf, Buffer orientations_buf, Buffer roi_buf,
      Session pose_ctx, Session faces_ctx] \<and>
   released (events (main demo_library [] [''model.rtm'', ''a.png''])) =
     rev (filter is_session
            (acquired (events (main demo_library [] [''model.rtm'', ''a.png''])))) @
     filter (\<lambda>r. \<not> is_session r)
       (acquired (events (main demo_library [] [''model.rtm'', ''a.png''])))"
proof -
  have h: "exit_status (main demo_library [] [''model.rtm'', ''a.png'']) = Some EXIT_SUCCESS"
    using demo_run by simp
  have a: "acquired (events (main demo_library [] [''model.rtm'', ''a.png''])) =
     [Buffer boxes_buf, Buffer orientations_buf, Buffer roi_buf,
      Session pose_ctx, Session faces_ctx]"
    using demo_run by (simp add: acquired_def)
  from h a released_on_normal_exit [OF h] show ?thesis
    by blast
qed

text \<open>
  Claim C2 as stated (release in the reverse order of acquisition) does not hold: on the
  normal completion of the default run the buffers are freed in the order of their
  allocation, after the sessions.
\<close>

theorem release_order_not_reversed:
  "acquired (events (main demo_library [] [''model.rtm'', ''a.png''])) =
     [Buffer boxes_buf, Buffer orientations_buf, Buffer roi_buf,
      Session pose_ctx, Session faces_ctx] \<and>
   released (events (main demo_library [] [''model.rtm'', ''a.png''])) =
     [Session faces_ctx, Session pose_ctx,
      Buffer boxes_buf, Buffer orientations_buf, Buffer roi_buf] \<and>
   released (events (main demo_library [] [''model.rtm'', ''a.png''])) \<noteq>
     rev (acquired (events (main demo_library [] [''model.rtm'', ''a.png''])))"
  using demo_run by (simp add: acquired_def released_def)

text \<open>
  The early returns of \<open>main\<close> release nothing. When the model file does not load
  (line 154), the three buffers and the pose session stay allocated.
\<close>

lemma nothing_released_when_model_fails:
  "exit_status (main demo_library [] [''bad.rtm'', ''a.png'']) = Some EXIT_FAILURE \<and>
   acquired (events (main demo_library [] [''bad.rtm'', ''a.png''])) =
     [Buffer boxes_buf, Buffer orientations_buf, Buffer roi_buf, Session pose_ctx] \<and>
   released (events (main demo_library [] [''bad.rtm'', ''a.png''])) = []"
  using bad_model_run by (simp add: acquired_def released_def)

subsection \<open>C3: which parameters are set on which session\<close>

text \<open>
  Claim C3. In a run in which the option loop runs to its end and the model loads, the
  parameters set are, in order and with nothing else: the normalization of the pose
  session, with the value \<open>norm\<close> that the option loop left; and then, exactly when
  face detection is requested and the probe returns a session, the four parameters of
  the face-detection session: \<open>max_detection\<close>, \<open>score_threshold\<close> and
  \<open>iou_threshold\<close> with the values the option loop left, and \<open>normalization\<close> with the
  constant 0. The value \<open>norm\<close> is the user's choice: the normalization named by the
  last \<open>--norm\<close> argument, 0 without one. In every run, whatever its course, the
  parameters set are none, or the pose normalization alone, or these five. So the
  thresholds and the detection count are set on the face-detection session and never on
  the pose session, the user's normalization is set on the pose session and never on the
  face-detection session, and the normalization of the face-detection session is 0
  whatever \<open>--norm\<close> says.
\<close>

theorem parameters_per_session:
  "(getopt_loop L initial_locals opts = Continue s \<longrightarrow>
    load_model L m s = Continue s2 \<longrightarrow>
      parameter_events (events (main L opts (m # images))) =
        Parameter_seti pose_ctx ''normalization'' (norm s) #
        (if face_detect s \<and> vaal_model_probe L (trace s2) (engine s)
         then [Parameter_seti faces_ctx ''max_detection'' (max_detection s),
               Parameter_setf faces_ctx ''score_threshold'' (score_thr s),
               Parameter_setf faces_ctx ''iou_threshold'' (iou_thr s),
               Parameter_seti faces_ctx ''normalization'' 0]
         else []) \<and>
      (case last_optarg (CHR ''n'') opts of
         None \<Rightarrow> norm s = 0
       | Some a \<Rightarrow> a \<in> set supported_norms \<and> norm s = selected_norm L a)) \<and>
   (parameter_events (events (main L opts args)) = [] \<or>
    (\<exists>s'. getopt_loop L initial_locals opts = Continue s' \<and>
       (parameter_events (events (main L opts args)) =
          [Parameter_seti pose_ctx ''normalization'' (norm s')] \<or>
        parameter_events (events (main L opts args)) =
          [Parameter_seti pose_ctx ''normalization'' (norm s'),
           Parameter_seti faces_ctx ''max_detection'' (max_detection s'),
           Parameter_setf faces_ctx ''score_threshold'' (score_thr s'),
           Parameter_setf faces_ctx ''iou_threshold'' (iou_thr s'),
           Parameter_seti faces_ctx ''normalization'' 0])))"
proof (intro conjI impI)
  assume g: "getopt_loop L initial_locals opts = Continue s"
    and l: "load_model L m s = Continue s2"
  have tr: "trace s = []"
    using parsed_locals [OF g] by simp
  have s2: "s2 = s\<lparr>model := Some m, boxes := replicate (nat (max_detection s)) zero_box,
          num_boxes := 0,
          trace :=
            [Calloc boxes_buf (nat (max_detection s)), Calloc orientations_buf 1,
             Calloc roi_buf 4, Context_create (engine s),
             Load_model_file pose_ctx m 0,
             Parameter_seti pose_ctx ''normalization'' (norm s)]\<rparr>"
    using load_model_cases [of L m s] l tr by auto
  have r: "main L opts (m # images) = finish (image_loop L images (probe_faces L s2))"
    using g l by (simp add: main_def run_def)
  have "parameter_events (events (main L opts (m # images))) =
        parameter_events (setup_events (events (main L opts (m # images))))"
    by (simp add: parameter_events_setup)
  also have "\<dots> =
        Parameter_seti pose_ctx ''normalization'' (norm s) #
        (if face_detect s \<and> vaal_model_probe L (trace s2) (engine s)
         then [Parameter_seti faces_ctx ''max_detection'' (max_detection s),
               Parameter_setf faces_ctx ''score_threshold'' (score_thr s),
               Parameter_setf faces_ctx ''iou_threshold'' (iou_thr s),
               Parameter_seti faces_ctx ''normalization'' 0]
         else [])"
    unfolding ran_setup_events [OF s2 r] by (simp add: parameter_events_def)
  finally show "parameter_events (events (main L opts (m # images))) =
        Parameter_seti pose_ctx ''normalization'' (norm s) #
        (if face_detect s \<and> vaal_model_probe L (trace s2) (engine s)
         then [Parameter_seti faces_ctx ''max_detection'' (max_detection s),
               Parameter_setf faces_ctx ''score_threshold'' (score_thr s),
               Parameter_setf faces_ctx ''iou_threshold'' (iou_thr s),
               Parameter_seti faces_ctx ''normalization'' 0]
         else [])" .
  show "case last_optarg (CHR ''n'') opts of
         None \<Rightarrow> norm s = 0
       | Some a \<Rightarrow> a \<in> set supported_norms \<and> norm s = selected_norm L a"
    using getopt_loop_norm [OF g] by (auto simp: initial_locals_def split: option.splits)
next
  have p: "parameter_events (events (main L opts args)) =
      parameter_events (setup_events (events (main L opts args)))"
    by (simp add: parameter_events_setup)
  from main_setup_events [of L opts args]
  show "parameter_events (events (main L opts args)) = [] \<or>
    (\<exists>s'. getopt_loop L initial_locals opts = Continue s' \<and>
       (parameter_events (events (main L opts args)) =
          [Parameter_seti pose_ctx ''normalization'' (norm s')] \<or>
        parameter_events (events (main L opts args)) =
          [Parameter_seti pose_ctx ''normalization'' (norm s'),
           Parameter_seti faces_ctx ''max_detection'' (max_detection s'),
           Parameter_setf faces_ctx ''score_threshold'' (score_thr s'),
           Parameter_setf faces_ctx ''iou_threshold'' (iou_thr s'),
           Parameter_seti faces_ctx ''normalization'' 0]))"
  proof (elim disjE exE conjE)
    assume "setup_events (events (main L opts args)) = []"
    then show ?thesis using p by (simp add: parameter_events_def)
  next
    fix s' :: locals and m' err
    assume "setup_events (events (main L opts args)) =
        [Calloc boxes_buf (nat (max_detection s')), Calloc orientations_buf 1,
         Calloc roi_buf 4, Context_create (engine s'),
         Load_model_file pose_ctx m' err]"
    then show ?thesis using p by (simp add: parameter_events_def)
  next
    fix s' :: locals and m' found
    assume g: "getopt_loop L initial_locals opts = Continue s'"
      and "setup_events (events (main L opts args)) =
        [Calloc boxes_buf (nat (max_detection s')), Calloc orientations_buf 1,
         Calloc roi_buf 4, Context_create (engine s'),
         Load_model_file pose_ctx m' 0,
         Parameter_seti pose_ctx ''normalization'' (norm s')] @
        (if face_detect s' then
           (if found then
              [Model_probe (engine s') True,
               Parameter_seti faces_ctx ''max_detection'' (max_detection s'),
               Parameter_setf faces_ctx ''score_threshold'' (score_thr s'),
               Parameter_setf faces_ctx ''iou_threshold'' (iou_thr s'),
               Parameter_seti faces_ctx ''normalization'' 0]
            else [Model_probe (engine s') False])
         else []) @
        (if exit_status (main L opts args) = Some EXIT_SUCCESS then
           (if face_detect s' \<and> found then [Context_release faces_ctx] else []) @
           [Context_release pose_ctx, Free boxes_buf, Free orientations_buf, Free roi_buf]
         else [])"
    then have "parameter_events (events (main L opts args)) =
         [Parameter_seti pose_ctx ''normalization'' (norm s')] \<or>
       parameter_events (events (main L opts args)) =
         [Parameter_seti pose_ctx ''normalization'' (norm s'),
          Parameter_seti faces_ctx ''max_detection'' (max_detection s'),
          Parameter_setf faces_ctx ''score_threshold'' (score_thr s'),
          Parameter_setf faces_ctx ''iou_threshold'' (iou_thr s'),
          Parameter_seti faces_ctx ''normalization'' 0]"
      using p by (simp add: parameter_events_def)
    then show ?thesis using g by blast
  qed
qed

text \<open>A run with \<open>--norm signed\<close>, \<open>-t 1.5\<close> and \<open>-m 3\<close> in which the probe finds a
  face-detection model: the pose session gets the normalization chosen (4 in this
  library), the face-detection session gets the count 3, the clamped threshold 1, the
  default IoU threshold and the normalization 0.\<close>

theorem parameters_per_session_witness:
  "getopt_loop demo_library initial_locals
     [(CHR ''n'', ''signed''), (CHR ''t'', ''1.5''), (CHR ''m'', ''3'')] =
     Continue (initial_locals\<lparr>max_detection := 3, score_thr := Finite 1, norm := 4\<rparr>) \<and>
   load_model demo_library ''model.rtm''
     (initial_locals\<lparr>max_detection := 3, score_thr := Finite 1, norm := 4\<rparr>) =
     Continue (initial_locals
       \<lparr>max_detection := 3, score_thr := Finite 1, norm := 4,
        model := Some ''model.rtm'', boxes := replicate 3 zero_box, num_boxes := 0,
        trace := [Calloc boxes_buf 3, Calloc orientations_buf 1, Calloc roi_buf 4,
                  Context_create ''npu'', Load_model_file pose_ctx ''model.rtm'' 0,
                  Parameter_seti pose_ctx ''normalization'' 4]\<rparr>) \<and>
   parameter_events
     (events (main demo_library
        [(CHR ''n'', ''signed''), (CHR ''t'', ''1.5''), (CHR ''m'', ''3'')]
        (''model.rtm'' # [''a.png'']))) =
     [Parameter_seti pose_ctx ''normalization'' 4,
      Parameter_seti faces_ctx ''max_detection'' 3,
      Parameter_setf faces_ctx ''score_threshold'' (Finite 1),
      Parameter_setf faces_ctx ''iou_threshold'' (Finite (1/2)),
      Parameter_seti faces_ctx ''normalization'' 0] \<and>
   last_optarg (CHR ''n'') [(CHR ''n'', ''signed''), (CHR ''t'', ''1.5''), (CHR ''m'', ''3'')] =
     Some ''signed'' \<and>
   selected_norm demo_library ''signed'' = 4"
proof -
  let ?opts = "[(CHR ''n'', ''signed''), (CHR ''t'', ''1.5''), (CHR ''m'', ''3'')]"
  let ?s = "initial_locals\<lparr>max_detection := 3, score_thr := Finite 1, norm := 4\<rparr>"
  let ?s2 = "initial_locals
       \<lparr>max_detection := 3, score_thr := Finite 1, norm := 4,
        model := Some ''model.rtm'', boxes := replicate 3 zero_box, num_boxes := 0,
        trace := [Calloc boxes_buf 3, Calloc orientations_buf 1, Calloc roi_buf 4,
                  Context_create ''npu'', Load_model_file pose_ctx ''model.rtm'' 0,
                  Parameter_seti pose_ctx ''normalization'' 4]\<rparr>"
  have h1: "getopt_loop demo_library initial_locals ?opts = Continue ?s"
    by (simp add: handle_option_def demo_library_def MAX_macro_def CLAMP_macro_def
        initial_locals_def)
  have h2: "load_model demo_library ''model.rtm'' ?s = Continue ?s2"
    by (simp add: load_model_def allocate_buffers_def emit_def Let_def
        demo_library_def initial_locals_def)
  have n: "last_optarg (CHR ''n'') ?opts = Some ''signed''"
    by simp
  have v: "selected_norm demo_library ''signed'' = 4"
    by (simp add: selected_norm_def demo_library_def)
  have "parameter_events (events (main demo_library ?opts (''model.rtm'' # [''a.png'']))) =
        Parameter_seti pose_ctx ''normalization'' (norm ?s) #
        (if face_detect ?s \<and> vaal_model_probe demo_library (trace ?s2) (engine ?s)
         then [Parameter_seti faces_ctx ''max_detection'' (max_detection ?s),
               Parameter_setf faces_ctx ''score_threshold'' (score_thr ?s),
               Parameter_setf faces_ctx ''iou_threshold'' (iou_thr ?s),
               Parameter_seti faces_ctx ''normalization'' 0]
         else [])"
    using parameters_per_session [of demo_library ?opts ?s "''model.rtm''" ?s2 "[''a.png'']"]
      h1 h2 by blast
  then have p: "parameter_events
      (events (main demo_library ?opts (''model.rtm'' # [''a.png'']))) =
     [Parameter_seti pose_ctx ''normalization'' 4,
      Parameter_seti faces_ctx ''max_detection'' 3,
      Parameter_setf faces_ctx ''score_threshold'' (Finite 1),
      Parameter_setf faces_ctx ''iou_threshold'' (Finite (1/2)),
      Parameter_seti faces_ctx ''normalization'' 0]"
    by (simp add: demo_library_def initial_locals_def)
  from h1 h2 p n v show ?thesis by blast
qed

subsection \<open>C4: no face-detection model\<close>

lemma image_loop_single_stage:
  "\<not> face_detect s \<Longrightarrow> image_loop L images s = single_stage_loop L images s"
proof (induction images arbitrary: s)
  case Nil
  show ?case by simp
next
  case (Cons img images)
  have p: "process_image L img s = single_stage L img s"
    using Cons.prems by (simp add: process_image_def)
  show ?case
  proof (cases "single_stage L img s")
    case (Continue s')
    have "\<not> face_detect s'"
      using frame_single_stage [of s L img] Continue Cons.prems by (simp add: frame_def)
    then show ?thesis using Cons.IH [of s'] p Continue by simp
  next
    case (Return c s')
    then show ?thesis using p by simp
  next
    case (Fault s')
    then show ?thesis using p by simp
  qed
qed

lemma probe_faces_degraded:
  "face_detect s \<Longrightarrow> \<not> vaal_model_probe L (trace s) (engine s) \<Longrightarrow>
     probe_faces L s = degraded s"
  by (simp add: probe_faces_def degraded_def Let_def)

text \<open>
  Claim C4. Let the option loop run to its end with face detection requested, and let
  the model load. If the probe returns no face-detection session, then \<open>main\<close> prints
  the "Unable to locate face detection model" line, clears \<open>face_detect\<close> and goes on
  (nothing is returned at this point): the rest of the run is the single-stage path
  applied to every image in turn, followed, when no image fails, by the shutdown.
\<close>

theorem probe_failure_degrades:
  assumes "getopt_loop L initial_locals opts = Continue s0"
    and "load_model L m s0 = Continue s"
    and "face_detect s"
    and "\<not> vaal_model_probe L (trace s) (engine s)"
  shows "main L opts (m # images) = finish (single_stage_loop L images (degraded s)) \<and>
         \<not> face_detect (degraded s) \<and>
         trace (degraded s) =
           trace s @ [Model_probe (engine s) False, Printf Unable_to_locate_face_model]"
proof -
  have d: "\<not> face_detect (degraded s)"
    by (simp add: degraded_def)
  have "main L opts (m # images) = finish (image_loop L images (probe_faces L s))"
    using assms(1,2) by (simp add: main_def run_def)
  also have "\<dots> = finish (image_loop L images (degraded s))"
    using assms(3,4) by (simp add: probe_faces_degraded)
  also have "\<dots> = finish (single_stage_loop L images (degraded s))"
    using d by (simp add: image_loop_single_stage)
  finally show ?thesis
    using d by (simp add: degraded_def emit_def)
qed

text \<open>The default run on two images with a library that finds no face-detection
  model: both images go through the single-stage path and the run ends with
  \<open>EXIT_SUCCESS\<close>.\<close>

theorem probe_failure_degrades_witness:
  "getopt_loop no_faces_library initial_locals [] = Continue initial_locals \<and>
   load_model no_faces_library ''model.rtm'' initial_locals =
     Continue (initial_locals
       \<lparr>model := Some ''model.rtm'', boxes := replicate 25 zero_box, num_boxes := 0,
        trace := [Calloc boxes_buf 25, Calloc orientations_buf 1, Calloc roi_buf 4,
                  Context_create ''npu'', Load_model_file pose_ctx ''model.rtm'' 0,
                  Parameter_seti pose_ctx ''normalization'' 0]\<rparr>) \<and>
   main no_faces_library [] (''model.rtm'' # [''a.png'', ''b.png'']) =
     finish (single_stage_loop no_faces_library [''a.png'', ''b.png'']
       (degraded (initial_locals
         \<lparr>model := Some ''model.rtm'', boxes := replicate 25 zero_box, num_boxes := 0,
          trace := [Calloc boxes_buf 25, Calloc orientations_buf 1, Calloc roi_buf 4,
                    Context_create ''npu'', Load_model_file pose_ctx ''model.rtm'' 0,
                    Parameter_seti pose_ctx ''normalization'' 0]\<rparr>))) \<and>
   exit_status (main no_faces_library [] (''model.rtm'' # [''a.png'', ''b.png''])) =
     Some EXIT_SUCCESS \<and>
   events (main no_faces_library [] (''model.rtm'' # [''a.png'', ''b.png''])) =
     [Calloc boxes_buf 25, Calloc orientations_buf 1, Calloc roi_buf 4,
      Context_create ''npu'', Load_model_file pose_ctx ''model.rtm'' 0,
      Parameter_seti pose_ctx ''normalization'' 0,
      Model_probe ''npu'' False, Printf Unable_to_locate_face_model,
      Load_image_file pose_ctx ''a.png'' None 0, Run_model pose_ctx 0,
      Euler pose_ctx 0 (Some \<lparr>yaw = Finite (1/8), pitch = Finite (1/4), roll = Finite (3/8)\<rparr>),
      Printf (Pose_line \<lparr>yaw = Finite (1/8), pitch = Finite (1/4), roll = Finite (3/8)\<rparr>),
      Load_image_file pose_ctx ''b.png'' None 0, Run_model pose_ctx 0,
      Euler pose_ctx 0 (Some \<lparr>yaw = Finite (1/8), pitch = Finite (1/4), roll = Finite (3/8)\<rparr>),
      Printf (Pose_line \<lparr>yaw = Finite (1/8), pitch = Finite (1/4), roll = Finite (3/8)\<rparr>),
      Context_release pose_ctx, Free boxes_buf, Free orientations_buf, Free roi_buf]"
proof -
  let ?s = "initial_locals
       \<lparr>model := Some ''model.rtm'', boxes := replicate 25 zero_box, num_boxes := 0,
        trace := [Calloc boxes_buf 25, Calloc orientations_buf 1, Calloc roi_buf 4,
                  Context_create ''npu'', Load_model_file pose_ctx ''model.rtm'' 0,
                  Parameter_seti pose_ctx ''normalization'' 0]\<rparr>"
  have h1: "getopt_loop no_faces_library initial_locals [] = Continue initial_locals"
    by simp
  have h2: "load_model no_faces_library ''model.rtm'' initial_locals = Continue ?s"
    by (simp add: load_model_def allocate_buffers_def emit_def Let_def
        no_faces_library_def demo_library_def initial_locals_def)
  have h3: "face_detect ?s"
    by (simp add: initial_locals_def)
  have h4: "\<not> vaal_model_probe no_faces_library (trace ?s) (engine ?s)"
    by (simp add: no_faces_library_def)
  have m: "main no_faces_library [] (''model.rtm'' # [''a.png'', ''b.png'']) =
      finish (single_stage_loop no_faces_library [''a.png'', ''b.png''] (degraded ?s))"
    using probe_failure_degrades [OF h1 h2 h3 h4, of "[''a.png'', ''b.png'']"] by blast
  have e: "exit_status (main no_faces_library [] (''model.rtm'' # [''a.png'', ''b.png''])) =
     Some EXIT_SUCCESS \<and>
   events (main no_faces_library [] (''model.rtm'' # [''a.png'', ''b.png''])) =
     [Calloc boxes_buf 25, Calloc orientations_buf 1, Calloc roi_buf 4,
      Context_create ''npu'', Load_model_file pose_ctx ''model.rtm'' 0,
      Parameter_seti pose_ctx ''normalization'' 0,
      Model_probe ''npu'' False, Printf Unable_to_locate_face_model,
      Load_image_file pose_ctx ''a.png'' None 0, Run_model pose_ctx 0,
      Euler pose_ctx 0 (Some \<lparr>yaw = Finite (1/8), pitch = Finite (1/4), roll = Finite (3/8)\<rparr>),
      Printf (Pose_line \<lparr>yaw = Finite (1/8), pitch = Finite (1/4), roll = Finite (3/8)\<rparr>),
      Load_image_file pose_ctx ''b.png'' None 0, Run_model pose_ctx 0,
      Euler pose_ctx 0 (Some \<lparr>yaw = Finite (1/8), pitch = Finite (1/4), roll = Finite (3/8)\<rparr>),
      Printf (Pose_line \<lparr>yaw = Finite (1/8), pitch = Finite (1/4), roll = Finite (3/8)\<rparr>),
      Context_release pose_ctx, Free boxes_buf, Free orientations_buf, Free roi_buf]"
    unfolding m
    by (simp add: single_stage_def shutdown_def degraded_def
      initial_locals_def no_faces_library_def demo_library_def emit_def events_def
      Let_def)
  from h1 h2 m e show ?thesis by blast
qed

subsection \<open>C5: the thresholds are clamped into [0, 1]\<close>




subsection \<open>C6: the floor of the detection count\<close>



subsection \<open>C7: an unsupported normalization method\<close>

text \<open>
  Claim C7, as the code has it. When the option loop reaches a \<open>--norm\<close> option whose
  value is none of \<open>raw\<close>, \<open>signed\<close>, \<open>unsigned\<close>, \<open>whitening\<close>, \<open>imagenet\<close>
  (the options before it having been processed without ending the run), \<open>main\<close> writes
  the "unsupported image normalization method" message to standard error and returns
  \<open>EXIT_FAILURE\<close> at once: whatever follows on the command line is not looked at, and
  the message is the only event of the run, so no buffer is allocated, no session is
  created and no image is processed.
\<close>

theorem unsupported_norm_exits:
  assumes "getopt_loop L initial_locals pre = Continue s"
    and "a \<notin> set supported_norms"
  shows "main L (pre @ (CHR ''n'', a) # rest) args =
           Return EXIT_FAILURE (emit (Fprintf_stderr (Unsupported_norm a)) s) \<and>
         events (main L (pre @ (CHR ''n'', a) # rest) args) =
           [Fprintf_stderr (Unsupported_norm a)]"
proof -
  have "handle_option L s (CHR ''n'', a) =
          Return EXIT_FAILURE (emit (Fprintf_stderr (Unsupported_norm a)) s)"
    using assms(2) by (simp add: handle_option_def supported_norms_def)
  then have m: "main L (pre @ (CHR ''n'', a) # rest) args =
      Return EXIT_FAILURE (emit (Fprintf_stderr (Unsupported_norm a)) s)"
    using assms(1) by (simp add: main_def getopt_loop_append)
  moreover have "trace s = []"
    using parsed_locals [OF assms(1)] by simp
  ultimately show ?thesis
    by (simp add: events_def emit_def)
qed

theorem unsupported_norm_exits_witness:
  "getopt_loop demo_library initial_locals [(CHR ''d'', '''')] =
     Continue (initial_locals\<lparr>face_detect := False\<rparr>) \<and>
   ''bogus'' \<notin> set supported_norms \<and>
   main demo_library ([(CHR ''d'', '''')] @ (CHR ''n'', ''bogus'') # [(CHR ''h'', '''')])
     [''model.rtm'', ''a.png''] =
     Return EXIT_FAILURE
       (emit (Fprintf_stderr (Unsupported_norm ''bogus''))
          (initial_locals\<lparr>face_detect := False\<rparr>)) \<and>
   events (main demo_library ([(CHR ''d'', '''')] @ (CHR ''n'', ''bogus'') # [(CHR ''h'', '''')])
             [''model.rtm'', ''a.png'']) = [Fprintf_stderr (Unsupported_norm ''bogus'')]"
proof -
  have h: "getopt_loop demo_library initial_locals [(CHR ''d'', '''')] =
     Continue (initial_locals\<lparr>face_detect := False\<rparr>)"
    by (simp add: handle_option_def)
  have n: "''bogus'' \<notin> set supported_norms"
    by (simp add: supported_norms_def)
  from h n unsupported_norm_exits [OF h n, of "[(CHR ''h'', '''')]" "[''model.rtm'', ''a.png'']"]
  show ?thesis
    by blast
qed

text \<open>
  Claim C7 as stated ("for every unsupported value the program exits with failure
  status") does not hold for every command line: options are processed in order, and
  \<open>-h\<close> before the unsupported \<open>--norm\<close> prints the usage text and returns
  \<open>EXIT_SUCCESS\<close>; the unsupported value is never looked at.
\<close>

theorem help_before_unsupported_norm:
  "''bogus'' \<notin> set supported_norms \<and>
   exit_status (main demo_library [(CHR ''h'', ''''), (CHR ''n'', ''bogus'')]
                  [''model.rtm'', ''a.png'']) = Some EXIT_SUCCESS \<and>
   exit_status (main demo_library [(CHR ''h'', ''''), (CHR ''n'', ''bogus'')]
                  [''model.rtm'', ''a.png'']) \<noteq> Some EXIT_FAILURE \<and>
   events (main demo_library [(CHR ''h'', ''''), (CHR ''n'', ''bogus'')]
             [''model.rtm'', ''a.png'']) = [Printf USAGE]"
  by (simp add: supported_norms_def main_def handle_option_def events_def emit_def
      initial_locals_def EXIT_SUCCESS_def EXIT_FAILURE_def)

subsection \<open>C8: a missing model argument\<close>

text \<open>
  Claim C8. If the option loop ends without ending the run and no positional argument
  remains (\<open>argv[optind] == NULL\<close>), \<open>main\<close> writes the "missing required model"
  message to standard error and returns \<open>EXIT_FAILURE\<close>; the message is the only
  event of the run, so this happens before any buffer is allocated or session created.
\<close>

theorem missing_model_exits:
  assumes "getopt_loop L initial_locals opts = Continue s"
  shows "main L opts [] = Return EXIT_FAILURE (emit (Fprintf_stderr Missing_model) s) \<and>
         events (main L opts []) = [Fprintf_stderr Missing_model]"
proof -
  have "trace s = []"
    using parsed_locals [OF assms] by simp
  then show ?thesis
    using assms by (simp add: main_def run_def events_def emit_def)
qed

theorem missing_model_exits_witness:
  "getopt_loop demo_library initial_locals [(CHR ''e'', ''cpu''), (CHR ''m'', ''3'')] =
     Continue (initial_locals\<lparr>max_detection := 3, engine := ''cpu''\<rparr>) \<and>
   main demo_library [(CHR ''e'', ''cpu''), (CHR ''m'', ''3'')] [] =
     Return EXIT_FAILURE
       (emit (Fprintf_stderr Missing_model) (initial_locals\<lparr>max_detection := 3, engine := ''cpu''\<rparr>)) \<and>
   events (main demo_library [(CHR ''e'', ''cpu''), (CHR ''m'', ''3'')] []) =
     [Fprintf_stderr Missing_model]"
proof -
  have h: "getopt_loop demo_library initial_locals [(CHR ''e'', ''cpu''), (CHR ''m'', ''3'')] =
     Continue (initial_locals\<lparr>max_detection := 3, engine := ''cpu''\<rparr>)"
    by (simp add: handle_option_def demo_library_def MAX_macro_def initial_locals_def)
  have r: "main demo_library [(CHR ''e'', ''cpu''), (CHR ''m'', ''3'')] [] =
     Return EXIT_FAILURE
       (emit (Fprintf_stderr Missing_model) (initial_locals\<lparr>max_detection := 3, engine := ''cpu''\<rparr>)) \<and>
   events (main demo_library [(CHR ''e'', ''cpu''), (CHR ''m'', ''3'')] []) =
     [Fprintf_stderr Missing_model]"
    by (rule missing_model_exits [OF h])
  from h r show ?thesis
    by blast
qed

subsection \<open>C9: an image that does not load ends the run\<close>

lemma clean_Nil: "clean []"
  by (simp add: clean_def)

lemma clean_append: "clean (xs @ ys) = (clean xs \<and> clean ys)"
  by (simp add: clean_def)

lemma clean_Cons: "clean (e # es) = (\<not> failed_load e \<and> clean es)"
  by (simp add: clean_def)

lemma ended_by_failed_loadI:
  "clean tr \<Longrightarrow> err \<noteq> 0 \<Longrightarrow>
     ended_by_failed_load
       (tr @ [Load_image_file c img roi err, Fprintf_stderr (Failed_to_load img err)])"
  unfolding ended_by_failed_load_def by blast

lemma disciplined_box_body:
  "clean (trace s) \<Longrightarrow> disciplined (box_body L img w h j s)"
  by (simp add: box_body_def Let_def disciplined_def emit_def clean_append clean_Cons
      clean_Nil ended_by_failed_loadI EXIT_FAILURE_def split: option.splits)

lemma disciplined_box_loop:
  "clean (trace s) \<Longrightarrow> disciplined (box_loop L img w h js s)"
proof (induction js arbitrary: s)
  case Nil
  then show ?case by (simp add: disciplined_def)
next
  case (Cons j js)
  have b: "disciplined (box_body L img w h j s)"
    using Cons.prems by (rule disciplined_box_body)
  show ?case
  proof (cases "box_body L img w h j s")
    case (Continue s')
    then have "clean (trace s')" using b by (simp add: disciplined_def)
    then show ?thesis using Cons.IH [of s'] Continue by simp
  next
    case (Return c s')
    then show ?thesis using b by simp
  next
    case (Fault s')
    then show ?thesis using b by simp
  qed
qed

lemma trace_store_boxes: "trace (store_boxes written s) = trace s"
  by (simp add: store_boxes_def split: option.splits)

lemma clean_emit: "clean (trace (emit e s)) = (clean (trace s) \<and> \<not> failed_load e)"
  by (simp add: emit_def clean_append clean_Cons clean_Nil)

lemma ended_emit:
  "clean (trace s) \<Longrightarrow> err \<noteq> 0 \<Longrightarrow>
     ended_by_failed_load
       (trace (emit (Fprintf_stderr (Failed_to_load img err))
                 (emit (Load_image_file c img roi err) s)))"
  by (simp add: emit_def ended_by_failed_loadI)

lemma disciplined_two_stage:
  "clean (trace s) \<Longrightarrow> disciplined (two_stage L img s)"
  unfolding two_stage_def Let_def
  apply (simp only: split: if_split)
  apply (intro conjI impI)
   apply (simp add: disciplined_def clean_emit ended_emit)
  apply (rule disciplined_box_loop)
  apply (simp add: trace_store_boxes clean_emit)
  done

lemma disciplined_single_stage:
  "clean (trace s) \<Longrightarrow> disciplined (single_stage L img s)"
  by (simp add: single_stage_def Let_def disciplined_def emit_def clean_append clean_Cons
      clean_Nil ended_by_failed_loadI EXIT_FAILURE_def split: option.splits)

lemma disciplined_process_image:
  "clean (trace s) \<Longrightarrow> disciplined (process_image L img s)"
  by (simp add: process_image_def disciplined_two_stage disciplined_single_stage)

lemma disciplined_image_loop:
  "clean (trace s) \<Longrightarrow> disciplined (image_loop L images s)"
proof (induction images arbitrary: s)
  case Nil
  then show ?case by (simp add: disciplined_def)
next
  case (Cons img images)
  have b: "disciplined (process_image L img s)"
    using Cons.prems by (rule disciplined_process_image)
  show ?case
  proof (cases "process_image L img s")
    case (Continue s')
    then have "clean (trace s')" using b by (simp add: disciplined_def)
    then show ?thesis using Cons.IH [of s'] Continue by simp
  next
    case (Return c s')
    then show ?thesis using b by simp
  next
    case (Fault s')
    then show ?thesis using b by simp
  qed
qed

lemma disciplined_finish: "disciplined r \<Longrightarrow> disciplined (finish r)"
  by (cases r)
    (simp_all add: disciplined_def shutdown_def emit_def Let_def clean_append clean_Cons
      clean_Nil)

lemma disciplined_main: "disciplined (main L opts args)"
proof (cases L opts args rule: main_cases)
  case (parse_exit c s e)
  then show ?thesis by (auto simp: disciplined_def clean_Cons clean_Nil)
next
  case (no_model s)
  then show ?thesis
    using parsed_locals [of L opts s]
    by (simp add: disciplined_def emit_def clean_Cons clean_Nil)
next
  case (load_failed s m images err)
  have "clean (events (main L opts args))"
    by (simp add: load_failed(5) clean_Cons clean_Nil)
  then show ?thesis
    by (cases "main L opts args") (simp_all add: disciplined_def events_def)
next
  case (ran s m images s2)
  have "clean (trace (probe_faces L s2))"
    by (simp add: probe_faces_trace ran(4) clean_append clean_Cons clean_Nil)
  then show ?thesis
    by (simp add: ran(5) disciplined_finish disciplined_image_loop)
qed

text \<open>Where a failed load can stand in a trace that ends with the only failed load
  and its message.\<close>

lemma failed_load_position:
  assumes "pre @ e # post = tr @ [e', f]"
    and "failed_load e" and "clean tr" and "\<not> failed_load f"
  shows "pre = tr \<and> e = e' \<and> post = [f]"
proof (cases post rule: rev_cases)
  case Nil
  then have "e = f" using assms(1) by (metis append_Cons append_Nil append_assoc last_snoc)
  then show ?thesis using assms(2,4) by simp
next
  case (snoc post' y)
  then have eq: "(pre @ e # post') @ [y] = (tr @ [e']) @ [f]"
    using assms(1) by simp
  then have y: "y = f" and rest: "pre @ e # post' = tr @ [e']"
    by (simp_all only: append1_eq_conv)
  show ?thesis
  proof (cases post' rule: rev_cases)
    case Nil
    then have "pre @ [e] = tr @ [e']" using rest by simp
    then have "pre = tr \<and> e = e'" by (simp only: append1_eq_conv)
    then show ?thesis using snoc y Nil by simp
  next
    case (snoc post'' z)
    then have "(pre @ e # post'') @ [z] = tr @ [e']" using rest by simp
    then have "pre @ e # post'' = tr" by (simp only: append1_eq_conv)
    then have "\<not> clean tr" using assms(2) by (auto simp: clean_def)
    then show ?thesis using assms(3) by simp
  qed
qed

text \<open>
  Claim C9. Whenever a call of \<open>vaal_load_image_file\<close> in a run returns a non-zero
  error (on the face-detection session or on the pose session, in single-stage or
  two-stage mode), \<open>main\<close> returns \<open>EXIT_FAILURE\<close>, and the only event after the
  failed call is the "failed to load" message for that image on standard error: no
  result line is printed and no library call is made for the rest of that image or for
  any later image. No load had failed before it, so nothing is retried.
\<close>

theorem load_failure_ends_run:
  assumes "events (main L opts args) = pre @ Load_image_file c img roi err # post"
    and "err \<noteq> 0"
  shows "exit_status (main L opts args) = Some EXIT_FAILURE \<and>
         post = [Fprintf_stderr (Failed_to_load img err)] \<and> clean pre"
proof -
  have nc: "\<not> clean (events (main L opts args))"
    using assms by (simp add: clean_append clean_Cons)
  have d: "disciplined (main L opts args)"
    by (rule disciplined_main)
  show ?thesis
  proof (cases "main L opts args")
    case (Continue s)
    then show ?thesis using d nc by (simp add: disciplined_def events_def)
  next
    case (Fault s)
    then show ?thesis using d nc by (simp add: disciplined_def events_def)
  next
    case (Return code s)
    then have code: "code = EXIT_FAILURE" and e: "ended_by_failed_load (trace s)"
      using d nc by (simp_all add: disciplined_def events_def)
    from e obtain tr c' img' roi' err' where
      tr: "clean tr" and
      t: "trace s = tr @ [Load_image_file c' img' roi' err',
                          Fprintf_stderr (Failed_to_load img' err')]"
      unfolding ended_by_failed_load_def by blast
    have "pre @ Load_image_file c img roi err # post =
          tr @ [Load_image_file c' img' roi' err', Fprintf_stderr (Failed_to_load img' err')]"
      using assms(1) t Return by (simp add: events_def)
    from failed_load_position [OF this _ tr]
    have "pre = tr \<and> Load_image_file c img roi err = Load_image_file c' img' roi' err' \<and>
          post = [Fprintf_stderr (Failed_to_load img' err')]"
      using assms(2) by simp
    then show ?thesis
      using Return code tr by simp
  qed
qed

text \<open>A run on three images of which the second does not load: the run ends there
  with \<open>EXIT_FAILURE\<close>, and the third image is never touched.\<close>

theorem load_failure_ends_run_witness:
  "events (main no_faces_library [] [''model.rtm'', ''a.png'', ''missing.png'', ''b.png'']) =
     [Calloc boxes_buf 25, Calloc orientations_buf 1, Calloc roi_buf 4,
      Context_create ''npu'', Load_model_file pose_ctx ''model.rtm'' 0,
      Parameter_seti pose_ctx ''normalization'' 0,
      Model_probe ''npu'' False, Printf Unable_to_locate_face_model,
      Load_image_file pose_ctx ''a.png'' None 0, Run_model pose_ctx 0,
      Euler pose_ctx 0 (Some \<lparr>yaw = Finite (1/8), pitch = Finite (1/4), roll = Finite (3/8)\<rparr>),
      Printf (Pose_line \<lparr>yaw = Finite (1/8), pitch = Finite (1/4), roll = Finite (3/8)\<rparr>)] @
     Load_image_file pose_ctx ''missing.png'' None 2 #
     [Fprintf_stderr (Failed_to_load ''missing.png'' 2)] \<and>
   (2::int) \<noteq> 0 \<and>
   exit_status (main no_faces_library [] [''model.rtm'', ''a.png'', ''missing.png'', ''b.png'']) =
     Some EXIT_FAILURE"
proof -
  have h: "events (main no_faces_library [] [''model.rtm'', ''a.png'', ''missing.png'', ''b.png'']) =
     [Calloc boxes_buf 25, Calloc orientations_buf 1, Calloc roi_buf 4,
      Context_create ''npu'', Load_model_file pose_ctx ''model.rtm'' 0,
      Parameter_seti pose_ctx ''normalization'' 0,
      Model_probe ''npu'' False, Printf Unable_to_locate_face_model,
      Load_image_file pose_ctx ''a.png'' None 0, Run_model pose_ctx 0,
      Euler pose_ctx 0 (Some \<lparr>yaw = Finite (1/8), pitch = Finite (1/4), roll = Finite (3/8)\<rparr>),
      Printf (Pose_line \<lparr>yaw = Finite (1/8), pitch = Finite (1/4), roll = Finite (3/8)\<rparr>)] @
     Load_image_file pose_ctx ''missing.png'' None 2 #
     [Fprintf_stderr (Failed_to_load ''missing.png'' 2)]"
    by (simp add: main_def run_def load_model_def allocate_buffers_def probe_faces_def
      process_image_def single_stage_def
      initial_locals_def no_faces_library_def demo_library_def emit_def events_def
      Let_def)
  have n: "(2::int) \<noteq> 0" by simp
  from h n load_failure_ends_run [OF h n] show ?thesis by blast
qed

subsection \<open>C10: the boxes array is read within its bounds\<close>

lemma boxes_in_bounds_emit:
  "boxes_in_bounds (emit e s) = (boxes_in_bounds s \<and> in_bounds (length (boxes s)) e)"
  by (auto simp: boxes_in_bounds_def emit_def)

lemma boxes_in_bounds_orientations:
  "boxes_in_bounds (s\<lparr>orientations := e\<rparr>) = boxes_in_bounds s"
  by (simp add: boxes_in_bounds_def)

lemma boxes_emit: "boxes (emit e s) = boxes s"
  by (simp add: emit_def)

lemma safe_box_body:
  "boxes_in_bounds s \<Longrightarrow> j < length (boxes s) \<Longrightarrow> safe (box_body L img w h j s)"
  by (simp add: safe_def box_body_def Let_def boxes_in_bounds_emit boxes_emit
      boxes_in_bounds_orientations split: option.splits)

lemma safe_box_loop:
  "boxes_in_bounds s \<Longrightarrow> \<forall>j\<in>set js. j < length (boxes s) \<Longrightarrow>
     safe (box_loop L img w h js s)"
proof (induction js arbitrary: s)
  case Nil
  then show ?case by (simp add: safe_def)
next
  case (Cons j js)
  have b: "safe (box_body L img w h j s)"
    using Cons.prems by (simp add: safe_box_body)
  show ?case
  proof (cases "box_body L img w h j s")
    case (Continue s')
    have "length (boxes s') = length (boxes s)"
      using frame_box_body [of s L img w h j] Continue by (simp add: frame_def)
    moreover have "boxes_in_bounds s'"
      using b Continue by (simp add: safe_def)
    ultimately show ?thesis
      using Cons.IH [of s'] Cons.prems Continue by simp
  next
    case (Return c s')
    then show ?thesis using b by simp
  next
    case (Fault s')
    then show ?thesis using b by simp
  qed
qed

text \<open>The step of line 196, from the state \<open>s4\<close> in which \<open>vaal_boxes\<close> is called, and
  the loop that follows it.\<close>

lemma bounds_retrieve:
  assumes "honours_capacity L" and "boxes_in_bounds s4"
  shows "boxes_in_bounds
           (store_boxes (snd (vaal_boxes L (trace s4) faces_ctx (nat (max_detection s4))))
              (emit (Boxes faces_ctx (nat (max_detection s4))
                       (fst (vaal_boxes L (trace s4) faces_ctx (nat (max_detection s4))))
                       (snd (vaal_boxes L (trace s4) faces_ctx (nat (max_detection s4)))))
                 s4))"
proof -
  have len: "nat (max_detection s4) = length (boxes s4)"
    using assms(2) by (simp add: boxes_in_bounds_def)
  have "case snd (vaal_boxes L (trace s4) faces_ctx (nat (max_detection s4))) of
          None \<Rightarrow> True
        | Some bs \<Rightarrow> length bs \<le> nat (max_detection s4)"
    using assms(1) unfolding honours_capacity_def by blast
  then show ?thesis
    using assms(2) len
    by (auto simp: boxes_in_bounds_def store_boxes_def emit_def split: option.splits)
qed

lemma safe_retrieve_and_loop:
  assumes "honours_capacity L" and "boxes_in_bounds s4"
    and "s5 = store_boxes (snd (vaal_boxes L (trace s4) faces_ctx (nat (max_detection s4))))
                (emit (Boxes faces_ctx (nat (max_detection s4))
                         (fst (vaal_boxes L (trace s4) faces_ctx (nat (max_detection s4))))
                         (snd (vaal_boxes L (trace s4) faces_ctx (nat (max_detection s4)))))
                   s4)"
  shows "safe (box_loop L img w h [0..<num_boxes s5] s5)"
proof -
  have b: "boxes_in_bounds s5"
    unfolding assms(3) using assms(1,2) by (rule bounds_retrieve)
  then have "num_boxes s5 \<le> length (boxes s5)"
    by (simp add: boxes_in_bounds_def)
  then have "\<forall>j\<in>set [0..<num_boxes s5]. j < length (boxes s5)"
    by simp
  with b show ?thesis by (rule safe_box_loop)
qed

lemma safe_two_stage:
  assumes "honours_capacity L" and "boxes_in_bounds s"
  shows "safe (two_stage L img s)"
  unfolding two_stage_def Let_def
  apply (simp only: split: if_split)
  apply (intro conjI impI)
   apply (simp add: safe_def boxes_in_bounds_emit boxes_emit assms(2))
  apply (rule safe_retrieve_and_loop [OF assms(1) _ refl])
  apply (simp add: boxes_in_bounds_emit boxes_emit assms(2))
  done

lemma safe_single_stage:
  "boxes_in_bounds s \<Longrightarrow> safe (single_stage L img s)"
  by (simp add: safe_def single_stage_def Let_def boxes_in_bounds_emit boxes_emit
      boxes_in_bounds_orientations split: option.splits)

lemma safe_process_image:
  "honours_capacity L \<Longrightarrow> boxes_in_bounds s \<Longrightarrow> safe (process_image L img s)"
  by (simp add: process_image_def safe_two_stage safe_single_stage)

lemma safe_image_loop:
  assumes "honours_capacity L"
  shows "boxes_in_bounds s \<Longrightarrow> safe (image_loop L images s)"
proof (induction images arbitrary: s)
  case Nil
  then show ?case by (simp add: safe_def)
next
  case (Cons img images)
  have b: "safe (process_image L img s)"
    using assms Cons.prems by (rule safe_process_image)
  show ?case
  proof (cases "process_image L img s")
    case (Continue s')
    then have "boxes_in_bounds s'" using b by (simp add: safe_def)
    then show ?thesis using Cons.IH [of s'] Continue by simp
  next
    case (Return c s')
    then show ?thesis using b by simp
  next
    case (Fault s')
    then show ?thesis using b by simp
  qed
qed

lemma safe_finish: "safe r \<Longrightarrow> safe (finish r)"
  by (cases r) (simp_all add: safe_def shutdown_def Let_def boxes_in_bounds_emit boxes_emit)

lemma bounds_probe_faces: "boxes_in_bounds s \<Longrightarrow> boxes_in_bounds (probe_faces L s)"
  by (auto simp: probe_faces_def Let_def boxes_in_bounds_def emit_def)

lemma boxes_in_boundsD:
  assumes "boxes_in_bounds s"
  shows "\<forall>e\<in>set (trace s). in_bounds (nat (max_detection s)) e"
proof -
  have "length (boxes s) = nat (max_detection s)"
    and "list_all (in_bounds (length (boxes s))) (trace s)"
    using assms unfolding boxes_in_bounds_def by blast+
  then show ?thesis by (simp add: list_all_iff)
qed

lemma safe_main:
  assumes "honours_capacity L"
  shows "\<not> is_fault (main L opts args) \<and>
         (\<forall>e\<in>set (events (main L opts args)).
            in_bounds (nat (max_detection (locals_of (main L opts args)))) e)"
proof (cases L opts args rule: main_cases)
  case (parse_exit c s e)
  then show ?thesis by (auto simp: events_def)
next
  case (no_model s)
  then show ?thesis
    using parsed_locals [of L opts s] by (simp add: events_def emit_def)
next
  case (load_failed s m images err)
  have f: "\<not> is_fault (main L opts args)"
    using load_failed(4) by (cases "main L opts args") simp_all
  then show ?thesis
    by (simp add: load_failed(5,6))
next
  case (ran s m images s2)
  have "boxes_in_bounds s2"
    by (simp add: ran(4) boxes_in_bounds_def)
  then have "boxes_in_bounds (probe_faces L s2)"
    by (rule bounds_probe_faces)
  then have "safe (main L opts args)"
    unfolding ran(5) using assms by (intro safe_finish safe_image_loop)
  then show ?thesis
    using boxes_in_boundsD [of "locals_of (main L opts args)"]
    by (simp add: safe_def events_def)
qed

text \<open>
  Claim C10. Provided the library keeps to the capacity it is given (\<open>vaal_boxes\<close>
  never writes more boxes than \<open>max_boxes\<close>), no run reads the boxes array outside
  the elements allocated for it: the outcome is never a fault. In every run the array
  is allocated with \<open>max_detection\<close> elements, every call of \<open>vaal_boxes\<close> is given
  the capacity \<open>max_detection\<close>, and every box processed to its result line has an
  index below \<open>max_detection\<close>, where \<open>max_detection\<close> is the value in effect after
  the option loop.
\<close>

theorem boxes_within_capacity:
  assumes "honours_capacity L"
  shows "\<not> is_fault (main L opts args) \<and>
         (\<forall>n. Calloc boxes_buf n \<in> set (events (main L opts args)) \<longrightarrow>
            n = nat (max_detection (locals_of (main L opts args)))) \<and>
         (\<forall>c cap err written.
            Boxes c cap err written \<in> set (events (main L opts args)) \<longrightarrow>
            cap = nat (max_detection (locals_of (main L opts args)))) \<and>
         (\<forall>j b eu. Printf (Box_line j b eu) \<in> set (events (main L opts args)) \<longrightarrow>
            j < nat (max_detection (locals_of (main L opts args))))"
proof -
  let ?md = "max_detection (locals_of (main L opts args))"
  have s: "\<not> is_fault (main L opts args)"
    and b: "\<forall>e\<in>set (events (main L opts args)). in_bounds (nat ?md) e"
    using safe_main [OF assms, of opts args] by blast+
  have 1: "n = nat ?md" if "Calloc boxes_buf n \<in> set (events (main L opts args))" for n
    using b that by fastforce
  have 2: "cap = nat ?md"
    if "Boxes c cap err written \<in> set (events (main L opts args))" for c cap err written
    using b that by fastforce
  have 3: "j < nat ?md"
    if "Printf (Box_line j b eu) \<in> set (events (main L opts args))" for j b eu
    using b that by fastforce
  from s 1 2 3 show ?thesis by blast
qed

text \<open>The default run with \<open>-m 1\<close>: the library knows two faces and reports one, the
  array has one element and one box is processed.\<close>

theorem boxes_within_capacity_witness:
  "honours_capacity demo_library \<and>
   \<not> is_fault (main demo_library [(CHR ''m'', ''1'')] [''model.rtm'', ''a.png'']) \<and>
   max_detection (locals_of (main demo_library [(CHR ''m'', ''1'')] [''model.rtm'', ''a.png''])) = 1 \<and>
   Calloc boxes_buf 1 \<in>
     set (events (main demo_library [(CHR ''m'', ''1'')] [''model.rtm'', ''a.png''])) \<and>
   Boxes faces_ctx 1 0 (Some [\<lparr>xmin = Finite (1/4), ymin = Finite (1/4), xmax = Finite (1/2),
         ymax = Finite (1/2), score = Finite (7/8)\<rparr>]) \<in>
     set (events (main demo_library [(CHR ''m'', ''1'')] [''model.rtm'', ''a.png''])) \<and>
   Printf (Box_line 0 \<lparr>xmin = Finite (1/4), ymin = Finite (1/4), xmax = Finite (1/2),
         ymax = Finite (1/2), score = Finite (7/8)\<rparr>
             \<lparr>yaw = Finite (1/8), pitch = Finite (1/4), roll = Finite (3/8)\<rparr>) \<in>
     set (events (main demo_library [(CHR ''m'', ''1'')] [''model.rtm'', ''a.png'']))"
proof -
  have h: "honours_capacity demo_library"
    by (simp add: honours_capacity_def demo_library_def)
  have e: "max_detection (locals_of (main demo_library [(CHR ''m'', ''1'')] [''model.rtm'', ''a.png''])) = 1 \<and>
   Calloc boxes_buf 1 \<in>
     set (events (main demo_library [(CHR ''m'', ''1'')] [''model.rtm'', ''a.png''])) \<and>
   Boxes faces_ctx 1 0 (Some [\<lparr>xmin = Finite (1/4), ymin = Finite (1/4), xmax = Finite (1/2),
         ymax = Finite (1/2), score = Finite (7/8)\<rparr>]) \<in>
     set (events (main demo_library [(CHR ''m'', ''1'')] [''model.rtm'', ''a.png''])) \<and>
   Printf (Box_line 0 \<lparr>xmin = Finite (1/4), ymin = Finite (1/4), xmax = Finite (1/2),
         ymax = Finite (1/2), score = Finite (7/8)\<rparr>
             \<lparr>yaw = Finite (1/8), pitch = Finite (1/4), roll = Finite (3/8)\<rparr>) \<in>
     set (events (main demo_library [(CHR ''m'', ''1'')] [''model.rtm'', ''a.png'']))"
    by (simp add: main_def run_def load_model_def allocate_buffers_def probe_faces_def
      process_image_def two_stage_def store_boxes_def box_body_def shutdown_def
      handle_option_def MAX_macro_def
      initial_locals_def demo_library_def demo_boxes_def emit_def events_def
      roi_coordinate_def zero_box_def EXIT_SUCCESS_def EXIT_FAILURE_def Let_def)
  from h e boxes_within_capacity [OF h, of "[(CHR ''m'', ''1'')]" "[''model.rtm'', ''a.png'']"]
  show ?thesis by blast
qed

text \<open>The hypothesis is needed. With a library that reports two boxes whatever the
  capacity, and \<open>-m 1\<close>, the loop reads \<open>boxes[1]\<close> of an array of one element.\<close>

lemma overfull_library_faults:
  "is_fault (main (demo_library\<lparr>vaal_boxes := (\<lambda>tr c cap. (0, Some demo_boxes))\<rparr>)
               [(CHR ''m'', ''1'')] [''model.rtm'', ''a.png''])"
  by (simp add: main_def run_def load_model_def allocate_buffers_def probe_faces_def
      process_image_def two_stage_def store_boxes_def box_body_def shutdown_def
      handle_option_def MAX_macro_def
      initial_locals_def demo_library_def demo_boxes_def emit_def events_def
      roi_coordinate_def zero_box_def EXIT_SUCCESS_def EXIT_FAILURE_def Let_def
      upt_rec [of 0] upt_rec [of 1] upt_rec [of 2])

end
